theory Spec2Isabelle
  imports Complex_Main
begin

section \<open>Investment research dashboard (investment\_app.py)\<close>

text \<open>
  The program is one Streamlit script. Its behaviour is embedded function by function:
  the password gate, the parsing of the ticker text, the fetch loop over the upstream
  provider, the derived metrics and the four views.

  Conventions of the embedding.
  \<^item> Python strings are \<open>string\<close>; the characters are ASCII code points, and the
    library primitives \<open>str.strip\<close>, \<open>str.upper\<close> are modelled on ASCII.
  \<^item> Python numbers (int and float alike) are real numbers: rounding error of the binary
    floating-point representation is not modelled. Where numpy arithmetic leaves the
    finite numbers (division by zero), the result type \<open>np_float\<close> says so.
  \<^item> A Python exception is a value \<open>Inl e\<close> of a sum type.
  \<^item> A Python dict whose iteration order matters is an association list with unique
    keys, updated in place or extended at the end as Python does.
\<close>

subsection \<open>Python string primitives\<close>

definition is_ascii :: "char \<Rightarrow> bool" where
  "is_ascii c = (of_char c < (128::nat))"

text \<open>\<open>str.isspace\<close> on ASCII: TAB, LF, VT, FF, CR, FS, GS, RS, US and the space.\<close>

definition is_space :: "char \<Rightarrow> bool" where
  "is_space c = (let n = (of_char c :: nat) in (9 \<le> n \<and> n \<le> 13) \<or> (28 \<le> n \<and> n \<le> 32))"

definition is_lower :: "char \<Rightarrow> bool" where
  "is_lower c = (let n = (of_char c :: nat) in 97 \<le> n \<and> n \<le> 122)"

definition upper_char :: "char \<Rightarrow> char" where
  "upper_char c = (if is_lower c then char_of ((of_char c :: nat) - 32) else c)"

text \<open>\<open>s.upper()\<close>\<close>

definition upper :: "string \<Rightarrow> string" where
  "upper s = map upper_char s"

text \<open>\<open>s.strip()\<close>: whitespace removed at both ends.\<close>

definition strip :: "string \<Rightarrow> string" where
  "strip s = rev (dropWhile is_space (rev (dropWhile is_space s)))"

text \<open>\<open>s.split(sep)\<close> for a one-character separator: always at least one token.\<close>

fun split_on :: "char \<Rightarrow> string \<Rightarrow> string list" where
  "split_on sep [] = [[]]"
| "split_on sep (c # cs) =
     (let r = split_on sep cs in if c = sep then [] # r else (c # hd r) # tl r)"

text \<open>\<open>sep.join(ts)\<close>\<close>

fun join :: "char \<Rightarrow> string list \<Rightarrow> string" where
  "join sep [] = []"
| "join sep [t] = t"
| "join sep (t # u # ts) = t @ sep # join sep (u # ts)"

subsection \<open>Input collector (line 63)\<close>

text \<open>
  \<^verbatim>\<open>tickers = [t.strip().upper() for t in ticker_input.split(",") if t.strip()]\<close>
\<close>

definition parse_tickers :: "string \<Rightarrow> string list" where
  "parse_tickers ticker_input =
     map (\<lambda>t. upper (strip t)) (filter (\<lambda>t. strip t \<noteq> []) (split_on CHR '','' ticker_input))"

text \<open>
  The specification's wording, step by step: split on commas, trim every token,
  upper-case every token, drop the empty ones.
\<close>

definition parse_request_spec :: "string \<Rightarrow> string list" where
  "parse_request_spec raw =
     filter (\<lambda>t. t \<noteq> []) (map upper (map strip (split_on CHR '','' raw)))"


subsection \<open>Python values, exceptions and dicts\<close>

datatype py_error = TypeError | ValueError | UpstreamError string

text \<open>A scalar of the provider's quote-info mapping: a number, a string or \<open>None\<close>.\<close>

datatype pvalue = VNum real | VStr string | VNone

type_synonym info_dict = "(string \<times> pvalue) list"

text \<open>\<open>d.get(k, default)\<close>\<close>

definition dict_get :: "info_dict \<Rightarrow> string \<Rightarrow> pvalue \<Rightarrow> pvalue" where
  "dict_get d k dflt = (case map_of d k of None \<Rightarrow> dflt | Some v \<Rightarrow> v)"

text \<open>
  \<open>d[k] = v\<close> on an insertion-ordered dict: an existing key keeps its place and takes
  the new value, a new key goes to the end.
\<close>

fun dict_set :: "('k \<times> 'v) list \<Rightarrow> 'k \<Rightarrow> 'v \<Rightarrow> ('k \<times> 'v) list" where
  "dict_set [] k v = [(k, v)]"
| "dict_set ((k', v') # d) k v = (if k' = k then (k, v) # d else (k', v') # dict_set d k v)"

subsection \<open>Access gate (lines 16--47)\<close>

text \<open>
  \<open>st.session_state\<close>: a key that was never written is \<open>None\<close>.
\<close>

record session_state =
  password_correct :: "bool option"
  analyze :: "bool option"
  ss_tickers :: "string list option"
  ss_period :: "string option"

definition CORRECT_PASSWORD :: string where
  "CORRECT_PASSWORD = ''Invest2026''"

text \<open>What \<open>check_password\<close> puts on the page.\<close>

datatype gate_ui = PasswordPrompt | IncorrectPassword

text \<open>
  How a run of script code ends: it returns, or \<open>st.rerun()\<close> abandons the run and
  starts the script again.
\<close>

datatype 'a ending = Returned 'a | Rerun

text \<open>
  \<open>check_password()\<close>. Its inputs beside the session state are the widget values of this
  run: the text of the password field and whether the Login button was clicked.
\<close>

definition check_password ::
  "session_state \<Rightarrow> string \<Rightarrow> bool \<Rightarrow> bool ending \<times> session_state \<times> gate_ui list" where
  "check_password st password login =
     (let st1 = (if password_correct st = None then st\<lparr>password_correct := Some False\<rparr> else st)
      in if password_correct st1 = Some True then (Returned True, st1, [])
         else if login then
           (if password = CORRECT_PASSWORD
            then (Rerun, st1\<lparr>password_correct := Some True\<rparr>, [PasswordPrompt])
            else (Returned False, st1, [PasswordPrompt, IncorrectPassword]))
         else (Returned False, st1, [PasswordPrompt]))"

text \<open>
  Lines 46--47, \<open>if not check_password(): st.stop()\<close>, with the rerun carried out: the
  script starts again on the updated session state, the button no longer clicked. The
  result says whether the script goes on to the dashboard.
\<close>

definition access_gate ::
  "session_state \<Rightarrow> string \<Rightarrow> bool \<Rightarrow> bool \<times> session_state \<times> gate_ui list" where
  "access_gate st password login =
     (case check_password st password login of
        (Returned b, st', ui) \<Rightarrow> (b, st', ui)
      | (Rerun, st', ui) \<Rightarrow>
          (case check_password st' password False of
             (Returned b, st'', ui') \<Rightarrow> (b, st'', ui')
           | (Rerun, st'', ui') \<Rightarrow> (False, st'', ui')))"

text \<open>A session: the gate run once per script run, on that run's widget values.\<close>

fun gate_session ::
  "session_state \<Rightarrow> (string \<times> bool) list \<Rightarrow> (bool \<times> gate_ui list) list \<times> session_state" where
  "gate_session st [] = ([], st)"
| "gate_session st ((password, login) # rest) =
     (case access_gate st password login of
        (b, st', ui) \<Rightarrow> (case gate_session st' rest of (rs, st'') \<Rightarrow> ((b, ui) # rs, st'')))"

subsection \<open>Market data fetcher (lines 100--148)\<close>

text \<open>One row of the provider's price history (a DataFrame row).\<close>

record price_bar =
  Date :: nat
  Open :: real
  High :: real
  Low :: real
  Close :: real
  Volume :: real

type_synonym statement = "(string \<times> real) list"

text \<open>
  \<open>yf.Ticker(symbol)\<close>: every attribute is fetched when it is read and may raise.
\<close>

record ticker =
  t_info :: "py_error + info_dict"
  t_history :: "string \<Rightarrow> py_error + price_bar list"
  t_financials :: "py_error + statement"
  t_balance_sheet :: "py_error + statement"

text \<open>The provider, by the position of the request in the run and the symbol.\<close>

type_synonym provider = "nat \<Rightarrow> string \<Rightarrow> ticker"

text \<open>The value stored under a symbol in \<open>stock_data\<close>.\<close>

record snapshot =
  ticker_obj :: ticker
  info :: info_dict
  history :: "price_bar list"
  financials :: statement
  balance_sheet :: statement

type_synonym stock_dict = "(string \<times> snapshot) list"

text \<open>
  The body of the \<open>try\<close> (lines 107--123): \<open>Inl e\<close> when an attribute raises,
  \<open>Inr None\<close> when the data is not valid, \<open>Inr (Some s)\<close> with the dict that line 115
  stores.
\<close>

definition try_fetch :: "ticker \<Rightarrow> string \<Rightarrow> py_error + snapshot option" where
  "try_fetch stock selected_period =
     (case t_info stock of
        Inl e \<Rightarrow> Inl e
      | Inr info' \<Rightarrow>
         (case t_history stock selected_period of
            Inl e \<Rightarrow> Inl e
          | Inr history' \<Rightarrow>
             if length history' > 0 \<and> info' \<noteq> [] then
               (case t_financials stock of
                  Inl e \<Rightarrow> Inl e
                | Inr fin \<Rightarrow>
                   (case t_balance_sheet stock of
                      Inl e \<Rightarrow> Inl e
                    | Inr bs \<Rightarrow>
                       Inr (Some \<lparr>ticker_obj = stock, info = info', history = history',
                                  financials = fin, balance_sheet = bs\<rparr>)))
             else Inr None))"

datatype fetch_event =
    StatusText string nat nat
  | WarnNoData string
  | WarnCouldNotFetch string py_error
  | Progress nat nat
  | Sleep nat

record fetch_state =
  stock_data :: stock_dict
  events :: "fetch_event list"

text \<open>One pass of the loop body for the symbol at position \<open>idx\<close> of \<open>n\<close>.\<close>

definition fetch_step ::
  "provider \<Rightarrow> string \<Rightarrow> nat \<Rightarrow> nat \<Rightarrow> string \<Rightarrow> fetch_state \<Rightarrow> fetch_state" where
  "fetch_step yf selected_period n idx symb st =
     (let status = StatusText symb (idx + 1) n;
          after = [Progress (idx + 1) n, Sleep 1]
      in case try_fetch (yf idx symb) selected_period of
           Inr (Some snap) \<Rightarrow>
             \<lparr>stock_data = dict_set (stock_data st) symb snap,
              events = events st @ status # after\<rparr>
         | Inr None \<Rightarrow>
             \<lparr>stock_data = stock_data st,
              events = events st @ status # WarnNoData symb # after\<rparr>
         | Inl e \<Rightarrow>
             \<lparr>stock_data = stock_data st,
              events = events st @ status # WarnCouldNotFetch symb e # after\<rparr>)"

text \<open>\<open>for idx, ticker in enumerate(tickers)\<close>, from position \<open>idx\<close> on.\<close>

fun fetch_loop ::
  "provider \<Rightarrow> string \<Rightarrow> nat \<Rightarrow> nat \<Rightarrow> string list \<Rightarrow> fetch_state \<Rightarrow> fetch_state" where
  "fetch_loop yf selected_period n idx [] st = st"
| "fetch_loop yf selected_period n idx (symb # symbs) st =
     fetch_loop yf selected_period n (Suc idx) symbs (fetch_step yf selected_period n idx symb st)"

text \<open>Lines 100--136: the loop on an empty \<open>stock_data\<close>.\<close>

definition fetch_all :: "provider \<Rightarrow> string \<Rightarrow> string list \<Rightarrow> fetch_state" where
  "fetch_all yf selected_period tickers =
     fetch_loop yf selected_period (length tickers) 0 tickers \<lparr>stock_data = [], events = []\<rparr>"

text \<open>
  Lines 139--148 and what follows: with no data the run shows the total-failure message
  and stops; otherwise the four tabs are rendered from \<open>stock_data\<close>.
\<close>

datatype run_result =
    TotalFailure "fetch_event list"
  | RenderTabs "fetch_event list" stock_dict

definition analyze_run :: "provider \<Rightarrow> string \<Rightarrow> string list \<Rightarrow> run_result" where
  "analyze_run yf selected_period tickers =
     (let st = fetch_all yf selected_period tickers
      in if length (stock_data st) = 0 then TotalFailure (events st)
         else RenderTabs (events st) (stock_data st))"

text \<open>Whether the symbol at position \<open>i\<close> is fetched with valid data.\<close>

definition fetch_ok :: "provider \<Rightarrow> string \<Rightarrow> string list \<Rightarrow> nat \<Rightarrow> bool" where
  "fetch_ok yf selected_period tickers i =
     (case try_fetch (yf i (tickers ! i)) selected_period of Inr (Some s) \<Rightarrow> True | _ \<Rightarrow> False)"

text \<open>The symbols the per-symbol warnings of a run are about, in order.\<close>

fun warned_symbol :: "fetch_event \<Rightarrow> string list" where
  "warned_symbol (WarnNoData s) = [s]"
| "warned_symbol (WarnCouldNotFetch s e) = [s]"
| "warned_symbol (StatusText s i n) = []"
| "warned_symbol (Progress i n) = []"
| "warned_symbol (Sleep d) = []"

definition warned_symbols :: "fetch_event list \<Rightarrow> string list" where
  "warned_symbols evs = concat (map warned_symbol evs)"

subsection \<open>Number formatting (\<open>format(x, ".2f")\<close>, \<open>format(x, ",.0f")\<close>)\<close>

definition digit_char :: "nat \<Rightarrow> char" where
  "digit_char d = ''0123456789'' ! d"

definition is_digit :: "char \<Rightarrow> bool" where
  "is_digit c = (let n = (of_char c :: nat) in 48 \<le> n \<and> n \<le> 57)"

text \<open>The decimal digits of a natural number, without leading zeros.\<close>

fun digits10 :: "nat \<Rightarrow> string" where
  "digits10 n = (if n < 10 then [digit_char n] else digits10 (n div 10) @ [digit_char (n mod 10)])"

declare digits10.simps [simp del]

text \<open>The \<open>,\<close> option: a comma before every group of three digits, from the right.\<close>

function group3 :: "string \<Rightarrow> string" where
  "group3 ds =
     (if length ds \<le> 3 then ds
      else group3 (take (length ds - 3) ds) @ CHR '','' # drop (length ds - 3) ds)"
  by pat_completeness auto
termination
  by (relation "measure length") auto

declare group3.simps [simp del]

text \<open>Rounding to the nearest integer, ties to the even one.\<close>

definition round_half_even :: "real \<Rightarrow> int" where
  "round_half_even x =
     (let f = \<lfloor>x\<rfloor>; r = x - of_int f
      in if r < 1 / 2 then f else if 1 / 2 < r then f + 1 else if even f then f else f + 1)"

definition zero_pad :: "nat \<Rightarrow> string \<Rightarrow> string" where
  "zero_pad w ds = replicate (w - length ds) CHR ''0'' @ ds"

text \<open>
  \<open>format(x, ".<prec>f")\<close>, and with \<open>grouping\<close> \<open>format(x, ",.<prec>f")\<close>, for a finite
  number: sign, integer digits, and for a positive precision the point and exactly
  \<open>prec\<close> digits.
\<close>

definition format_f :: "bool \<Rightarrow> nat \<Rightarrow> real \<Rightarrow> string" where
  "format_f grouping prec x =
     (let scaled = nat (round_half_even (\<bar>x\<bar> * 10 ^ prec));
          int_part = digits10 (scaled div 10 ^ prec);
          frac_part = zero_pad prec (digits10 (scaled mod 10 ^ prec))
      in (if x < 0 then ''-'' else [])
         @ (if grouping then group3 int_part else int_part)
         @ (if prec = 0 then [] else CHR ''.'' # frac_part))"

text \<open>A numpy float: a finite number, an infinity or not-a-number.\<close>

datatype np_float = Finite real | PosInf | NegInf | NaN

definition format_np :: "bool \<Rightarrow> nat \<Rightarrow> np_float \<Rightarrow> string" where
  "format_np grouping prec v =
     (case v of Finite x \<Rightarrow> format_f grouping prec x
      | PosInf \<Rightarrow> ''inf'' | NegInf \<Rightarrow> ''-inf'' | NaN \<Rightarrow> ''nan'')"

text \<open>numpy division of finite numbers: a zero divisor gives an infinity or NaN.\<close>

definition np_div :: "real \<Rightarrow> real \<Rightarrow> np_float" where
  "np_div a b =
     (if b = 0 then (if 0 < a then PosInf else if a < 0 then NegInf else NaN)
      else Finite (a / b))"

definition np_mul :: "np_float \<Rightarrow> real \<Rightarrow> np_float" where
  "np_mul v k =
     (case v of
        Finite x \<Rightarrow> Finite (x * k)
      | PosInf \<Rightarrow> (if 0 < k then PosInf else if k < 0 then NegInf else NaN)
      | NegInf \<Rightarrow> (if 0 < k then NegInf else if k < 0 then PosInf else NaN)
      | NaN \<Rightarrow> NaN)"

text \<open>
  pandas \<open>Series.std(ddof)\<close>: the square root of the sum of squared deviations from the
  mean over \<open>n - ddof\<close>; NaN when there are not more than \<open>ddof\<close> values. The call
  \<open>.std()\<close> of the source takes the default \<open>ddof = 1\<close>.
\<close>

definition mean :: "real list \<Rightarrow> real" where
  "mean xs = sum_list xs / real (length xs)"

definition sum_sq_dev :: "real list \<Rightarrow> real" where
  "sum_sq_dev xs = sum_list (map (\<lambda>x. (x - mean xs)\<^sup>2) xs)"

definition pd_std :: "nat \<Rightarrow> real list \<Rightarrow> np_float" where
  "pd_std ddof xs =
     (if length xs \<le> ddof then NaN
      else Finite (sqrt (sum_sq_dev xs / real (length xs - ddof))))"

subsection \<open>Python operations on quote-info values\<close>

definition bind_e :: "py_error + 'a \<Rightarrow> ('a \<Rightarrow> py_error + 'b) \<Rightarrow> py_error + 'b" where
  "bind_e m f = (case m of Inl e \<Rightarrow> Inl e | Inr x \<Rightarrow> f x)"

text \<open>\<open>format(v, spec)\<close> with an \<open>f\<close> presentation type: only numbers have it.\<close>

definition fmt :: "bool \<Rightarrow> nat \<Rightarrow> pvalue \<Rightarrow> py_error + string" where
  "fmt grouping prec v =
     (case v of VNum x \<Rightarrow> Inr (format_f grouping prec x)
      | VStr s \<Rightarrow> Inl ValueError
      | VNone \<Rightarrow> Inl TypeError)"

text \<open>\<open>v * 100\<close>: a string is repeated.\<close>

definition times100 :: "pvalue \<Rightarrow> py_error + pvalue" where
  "times100 v =
     (case v of VNum x \<Rightarrow> Inr (VNum (x * 100))
      | VStr s \<Rightarrow> Inr (VStr (concat (replicate 100 s)))
      | VNone \<Rightarrow> Inl TypeError)"

text \<open>\<open>a - b\<close>\<close>

definition py_sub :: "pvalue \<Rightarrow> pvalue \<Rightarrow> py_error + real" where
  "py_sub a b = (case (a, b) of (VNum x, VNum y) \<Rightarrow> Inr (x - y) | _ \<Rightarrow> Inl TypeError)"

text \<open>\<open>v > k\<close> and \<open>v < k\<close> against a number.\<close>

definition py_gt :: "pvalue \<Rightarrow> real \<Rightarrow> py_error + bool" where
  "py_gt v k = (case v of VNum x \<Rightarrow> Inr (k < x) | _ \<Rightarrow> Inl TypeError)"

definition py_lt :: "pvalue \<Rightarrow> real \<Rightarrow> py_error + bool" where
  "py_lt v k = (case v of VNum x \<Rightarrow> Inr (x < k) | _ \<Rightarrow> Inl TypeError)"

text \<open>Truth value of a scalar.\<close>

definition truthy :: "pvalue \<Rightarrow> bool" where
  "truthy v = (case v of VNum x \<Rightarrow> x \<noteq> 0 | VStr s \<Rightarrow> s \<noteq> [] | VNone \<Rightarrow> False)"

text \<open>\<open>isinstance(v, (int, float))\<close>\<close>

definition is_number :: "pvalue \<Rightarrow> bool" where
  "is_number v = (case v of VNum x \<Rightarrow> True | _ \<Rightarrow> False)"

text \<open>
  \<open>str(v)\<close>, as an f-string without a format spec interpolates a value. How a number
  is written out (the shortest round-trip representation of the float) is a parameter.
\<close>

definition py_str :: "(real \<Rightarrow> string) \<Rightarrow> pvalue \<Rightarrow> string" where
  "py_str num_repr v = (case v of VNum x \<Rightarrow> num_repr x | VStr s \<Rightarrow> s | VNone \<Rightarrow> ''None'')"

subsection \<open>Overview tab (lines 160--190)\<close>

text \<open>Lines 166--168: the live price, or the last close when it is absent or zero.\<close>

definition current_price :: "info_dict \<Rightarrow> price_bar list \<Rightarrow> pvalue" where
  "current_price info' history' =
     (let cp = dict_get info' ''currentPrice'' (VNum 0)
      in if cp = VNum 0 \<and> length history' > 0 then VNum (Close (last history')) else cp)"

text \<open>
  Lines 170--172:
  \<^verbatim>\<open>previous_close = info.get('previousClose', 0)\<close>
  \<^verbatim>\<open>change = current_price - previous_close\<close>
  \<^verbatim>\<open>change_pct = (change / previous_close * 100) if previous_close > 0 else 0\<close>
\<close>

definition change_pct :: "info_dict \<Rightarrow> price_bar list \<Rightarrow> py_error + real" where
  "change_pct info' history' =
     (let previous_close = dict_get info' ''previousClose'' (VNum 0)
      in bind_e (py_sub (current_price info' history') previous_close) (\<lambda>change.
         bind_e (py_gt previous_close 0) (\<lambda>positive.
           if positive
           then (case previous_close of
                   VNum pc \<Rightarrow> Inr (change / pc * 100)
                 | _ \<Rightarrow> Inl TypeError)
           else Inr 0)))"

text \<open>The three f-string patterns of the views, on \<open>info.get(key, 0)\<close>:
  \<^verbatim>\<open>f"${info.get(key, 0):,.0f}"\<close>,
  \<^verbatim>\<open>f"{info.get(key, 0)*100:.2f}%"\<close> and
  \<^verbatim>\<open>f"{info.get(key, 0):.2f}"\<close>.
  Numbers are real numbers here, so the product with 100 is exact and an integer is
  formatted digit for digit. Python rounds a float product to a double and converts an
  int to a double when it formats it, which can change the last digits shown: the texts
  are Python's own when the number has magnitude up to \<open>2 ^ 53\<close> and, for a percentage,
  when the value times 100 is an integer. The properties state exact texts only there
  and the shape of the text everywhere.\<close>

definition money0 :: "info_dict \<Rightarrow> string \<Rightarrow> py_error + string" where
  "money0 info' key =
     bind_e (fmt True 0 (dict_get info' key (VNum 0))) (\<lambda>s. Inr (CHR ''$'' # s))"

definition percent2 :: "info_dict \<Rightarrow> string \<Rightarrow> py_error + string" where
  "percent2 info' key =
     bind_e (times100 (dict_get info' key (VNum 0))) (\<lambda>v.
     bind_e (fmt False 2 v) (\<lambda>s. Inr (s @ ''%'')))"

definition ratio2 :: "info_dict \<Rightarrow> string \<Rightarrow> py_error + string" where
  "ratio2 info' key = fmt False 2 (dict_get info' key (VNum 0))"

text \<open>\<^verbatim>\<open>f"{info.get(key, 'N/A')}"\<close>: the value as \<open>str\<close> writes it.\<close>

definition plain :: "(real \<Rightarrow> string) \<Rightarrow> info_dict \<Rightarrow> string \<Rightarrow> string" where
  "plain num_repr info' key = py_str num_repr (dict_get info' key (VStr ''N/A''))"

text \<open>Line 178, \<^verbatim>\<open>value=f"${current_price:.2f}"\<close>.\<close>

definition metric_value :: "info_dict \<Rightarrow> price_bar list \<Rightarrow> py_error + string" where
  "metric_value info' history' =
     bind_e (fmt False 2 (current_price info' history')) (\<lambda>s. Inr (CHR ''$'' # s))"

text \<open>Line 179, \<^verbatim>\<open>delta=f"{change_pct:.2f}%"\<close>.\<close>

definition metric_delta :: "info_dict \<Rightarrow> price_bar list \<Rightarrow> py_error + string" where
  "metric_delta info' history' =
     bind_e (change_pct info' history') (\<lambda>c. Inr (format_f False 2 c @ ''%''))"

text \<open>One card: the subheader, the metric and the six items of the markdown block.\<close>

record overview_card =
  subheader :: string
  label :: pvalue
  card_value :: string
  card_delta :: string
  market_cap :: string
  pe_ratio :: string
  dividend_yield :: string
  high_52w :: string
  low_52w :: string
  sector :: string

definition overview_card_of ::
  "(real \<Rightarrow> string) \<Rightarrow> string \<Rightarrow> snapshot \<Rightarrow> py_error + overview_card" where
  "overview_card_of num_repr ticker' data =
     (let info' = info data; history' = history data
      in bind_e (metric_delta info' history') (\<lambda>delta.
         bind_e (metric_value info' history') (\<lambda>val.
         bind_e (money0 info' ''marketCap'') (\<lambda>mcap.
         bind_e (percent2 info' ''dividendYield'') (\<lambda>dy.
           Inr \<lparr>subheader = ticker',
                label = dict_get info' ''shortName'' (VStr ticker'),
                card_value = val,
                card_delta = delta,
                market_cap = mcap,
                pe_ratio = plain num_repr info' ''trailingPE'',
                dividend_yield = dy,
                high_52w = CHR ''$'' # plain num_repr info' ''fiftyTwoWeekHigh'',
                low_52w = CHR ''$'' # plain num_repr info' ''fiftyTwoWeekLow'',
                sector = plain num_repr info' ''sector''\<rparr>)))))"

subsection \<open>Price-chart tab: the performance table (lines 223--238)\<close>

text \<open>Line 230, on numpy floats: \<open>((end_price - start_price) / start_price) * 100\<close>.\<close>

definition total_return :: "real \<Rightarrow> real \<Rightarrow> np_float" where
  "total_return start_price end_price = np_mul (np_div (end_price - start_price) start_price) 100"

record perf_row =
  perf_ticker :: string
  perf_start_price :: string
  perf_current_price :: string
  perf_total_return :: string
  perf_volatility :: string

text \<open>The loop body: a row when the history has more than one point, else nothing.\<close>

definition perf_row_of :: "string \<Rightarrow> snapshot \<Rightarrow> perf_row option" where
  "perf_row_of ticker' data =
     (let history' = history data
      in if length history' > 1 then
           (let start_price = Close (hd history');
                end_price = Close (last history')
            in Some \<lparr>perf_ticker = ticker',
                      perf_start_price = CHR ''$'' # format_f False 2 start_price,
                      perf_current_price = CHR ''$'' # format_f False 2 end_price,
                      perf_total_return =
                        format_np False 2 (total_return start_price end_price) @ ''%'',
                      perf_volatility = format_np False 2 (pd_std 1 (map Close history'))\<rparr>)
         else None)"

fun perf_data :: "stock_dict \<Rightarrow> perf_row list" where
  "perf_data [] = []"
| "perf_data ((ticker', data) # rest) =
     (case perf_row_of ticker' data of
        Some row \<Rightarrow> row # perf_data rest
      | None \<Rightarrow> perf_data rest)"

text \<open>
  The standard deviations in the statistics' own words: sample (divisor \<open>n - 1\<close>) and
  population (divisor \<open>n\<close>).
\<close>

definition sample_std :: "real list \<Rightarrow> real" where
  "sample_std xs = sqrt (sum_sq_dev xs / (real (length xs) - 1))"

definition population_std :: "real list \<Rightarrow> real" where
  "population_std xs = sqrt (sum_sq_dev xs / real (length xs))"

subsection \<open>Financials tab: the metrics table (lines 249--264)\<close>

record financial_row =
  fin_ticker :: string
  fin_revenue :: string
  fin_net_income :: string
  fin_operating_margin :: string
  fin_profit_margin :: string
  fin_roe :: string
  fin_debt_equity :: string
  fin_current_ratio :: string
  fin_free_cash_flow :: string

definition financial_row_of :: "string \<Rightarrow> snapshot \<Rightarrow> py_error + financial_row" where
  "financial_row_of ticker' data =
     (let info' = info data
      in bind_e (money0 info' ''totalRevenue'') (\<lambda>revenue.
         bind_e (money0 info' ''netIncomeToCommon'') (\<lambda>net_income.
         bind_e (percent2 info' ''operatingMargins'') (\<lambda>operating_margin.
         bind_e (percent2 info' ''profitMargins'') (\<lambda>profit_margin.
         bind_e (percent2 info' ''returnOnEquity'') (\<lambda>roe.
         bind_e (ratio2 info' ''debtToEquity'') (\<lambda>debt_equity.
         bind_e (ratio2 info' ''currentRatio'') (\<lambda>current_ratio.
         bind_e (money0 info' ''freeCashflow'') (\<lambda>free_cash_flow.
           Inr \<lparr>fin_ticker = ticker',
                fin_revenue = revenue,
                fin_net_income = net_income,
                fin_operating_margin = operating_margin,
                fin_profit_margin = profit_margin,
                fin_roe = roe,
                fin_debt_equity = debt_equity,
                fin_current_ratio = current_ratio,
                fin_free_cash_flow = free_cash_flow\<rparr>)))))))))"

fun financial_data :: "stock_dict \<Rightarrow> py_error + financial_row list" where
  "financial_data [] = Inr []"
| "financial_data ((ticker', data) # rest) =
     bind_e (financial_row_of ticker' data) (\<lambda>row.
     bind_e (financial_data rest) (\<lambda>rows. Inr (row # rows)))"

subsection \<open>Comparison tab (lines 297--357)\<close>

definition comparison_metrics :: "string list" where
  "comparison_metrics =
     [''currentPrice'', ''marketCap'', ''trailingPE'', ''forwardPE'', ''priceToBook'',
      ''dividendYield'', ''beta'', ''fiftyTwoWeekHigh'', ''fiftyTwoWeekLow'', ''averageVolume'']"

text \<open>Lines 317--325: the cell for one metric; a formatted cell is a string.\<close>

definition metric_cell :: "info_dict \<Rightarrow> string \<Rightarrow> pvalue" where
  "metric_cell info' metric =
     (let v = dict_get info' metric (VStr ''N/A'')
      in case v of
           VNum x \<Rightarrow>
             if metric = ''marketCap'' then VStr (CHR ''$'' # format_f True 0 x)
             else if metric = ''dividendYield'' then VStr (format_f False 2 (x * 100) @ ''%'')
             else VStr (format_f False 2 x)
         | _ \<Rightarrow> v)"

definition ticker_metrics :: "info_dict \<Rightarrow> (string \<times> pvalue) list" where
  "ticker_metrics info' = map (\<lambda>metric. (metric, metric_cell info' metric)) comparison_metrics"

definition comparison_data :: "stock_dict \<Rightarrow> (string \<times> (string \<times> pvalue) list) list" where
  "comparison_data sd = map (\<lambda>(ticker', data). (ticker', ticker_metrics (info data))) sd"

text \<open>
  Lines 350--357, one symbol:
  \<^verbatim>\<open>pe = info.get('trailingPE', None)\<close>
  \<^verbatim>\<open>if pe and pe > 0 and pe < 100: pe_data.append(...)\<close>
\<close>

definition pe_entry :: "string \<Rightarrow> snapshot \<Rightarrow> py_error + (string \<times> real) option" where
  "pe_entry ticker' data =
     (let pe = dict_get (info data) ''trailingPE'' VNone
      in if \<not> truthy pe then Inr None
         else bind_e (py_gt pe 0) (\<lambda>above.
              if \<not> above then Inr None
              else bind_e (py_lt pe 100) (\<lambda>below.
                   if \<not> below then Inr None
                   else (case pe of VNum x \<Rightarrow> Inr (Some (ticker', x)) | _ \<Rightarrow> Inl TypeError))))"

fun pe_data :: "stock_dict \<Rightarrow> py_error + (string \<times> real) list" where
  "pe_data [] = Inr []"
| "pe_data ((ticker', data) # rest) =
     bind_e (pe_entry ticker' data) (\<lambda>entry.
     bind_e (pe_data rest) (\<lambda>entries.
       Inr (case entry of Some e \<Rightarrow> e # entries | None \<Rightarrow> entries)))"

subsection \<open>The specification's formats\<close>

text \<open>
  The specification's currency format in its own words: two decimals and thousands
  separators, after the currency sign.
\<close>

definition currency_2dp :: "real \<Rightarrow> string" where
  "currency_2dp x = CHR ''$'' # format_f True 2 x"

text \<open>A text that ends in a point and two digits.\<close>

definition two_decimals :: "string \<Rightarrow> bool" where
  "two_decimals s =
     (case rev s of
        d2 # d1 # p # rest \<Rightarrow> is_digit d2 \<and> is_digit d1 \<and> p = CHR ''.'' \<and> rest \<noteq> []
      | _ \<Rightarrow> False)"

text \<open>
  Digit groups separated by commas, after an optional minus sign: every group is made of
  digits, the first has one to three of them and every later one exactly three.
\<close>

definition grouped3 :: "string \<Rightarrow> bool" where
  "grouped3 s =
     (let gs = split_on CHR '','' (if s \<noteq> [] \<and> hd s = CHR ''-'' then tl s else s)
      in list_all (list_all is_digit) gs
         \<and> 1 \<le> length (hd gs) \<and> length (hd gs) \<le> 3
         \<and> list_all (\<lambda>g. length g = 3) (tl gs))"

text \<open>
  The four shapes of a displayed number: currency sign and two decimals without
  thousands separators; currency sign and comma-separated digit groups without
  decimals; two decimals without separators and a trailing percent sign; two decimals
  without separators.
\<close>

definition dollars_2dp :: "string \<Rightarrow> bool" where
  "dollars_2dp s =
     (s \<noteq> [] \<and> hd s = CHR ''$'' \<and> two_decimals (tl s) \<and> CHR '','' \<notin> set s)"

definition dollars_0dp :: "string \<Rightarrow> bool" where
  "dollars_0dp s =
     (s \<noteq> [] \<and> hd s = CHR ''$'' \<and> grouped3 (tl s) \<and> CHR ''.'' \<notin> set s)"

definition percent_2dp :: "string \<Rightarrow> bool" where
  "percent_2dp s =
     (s \<noteq> [] \<and> last s = CHR ''%'' \<and> two_decimals (butlast s) \<and> CHR '','' \<notin> set s)"

definition plain_2dp :: "string \<Rightarrow> bool" where
  "plain_2dp s = (two_decimals s \<and> CHR '','' \<notin> set s)"

text \<open>The text of a table cell that holds a string.\<close>

definition cell_text :: "pvalue \<Rightarrow> string" where
  "cell_text v = (case v of VStr s \<Rightarrow> s | _ \<Rightarrow> [])"

subsection \<open>Example data\<close>

definition fresh_session :: session_state where
  "fresh_session = \<lparr>password_correct = None, analyze = None, ss_tickers = None, ss_period = None\<rparr>"

definition example_bars :: "price_bar list" where
  "example_bars =
     [\<lparr>Date = 1, Open = 10, High = 12, Low = 9, Close = 10, Volume = 1000\<rparr>,
      \<lparr>Date = 2, Open = 10, High = 13, Low = 10, Close = 12, Volume = 1500\<rparr>,
      \<lparr>Date = 3, Open = 12, High = 15, Low = 11, Close = 14, Volume = 900\<rparr>]"

definition example_info :: info_dict where
  "example_info =
     [(''shortName'', VStr ''Apple Inc.''), (''currentPrice'', VNum 14),
      (''previousClose'', VNum 12), (''trailingPE'', VNum (57 / 2))]"

text \<open>
  A provider that knows one symbol; for \<open>BAD\<close> the request raises, \<open>EMPTY\<close> has no
  price history and every other symbol has an empty quote-info mapping.
\<close>

definition example_provider :: provider where
  "example_provider i symb =
     \<lparr>t_info = (if symb = ''BAD'' then Inl (UpstreamError ''404'')
               else if symb = ''AAPL'' \<or> symb = ''EMPTY'' then Inr example_info else Inr []),
      t_history = (\<lambda>p. if symb = ''EMPTY'' then Inr [] else Inr example_bars),
      t_financials = Inr [],
      t_balance_sheet = Inr []\<rparr>"

text \<open>The number a numeric value holds, and the trailing P/E of a snapshot as a number.\<close>

definition num_of :: "pvalue \<Rightarrow> real" where
  "num_of v = (case v of VNum x \<Rightarrow> x | _ \<Rightarrow> 0)"

definition trailing_pe :: "snapshot \<Rightarrow> real" where
  "trailing_pe data = num_of (dict_get (info data) ''trailingPE'' VNone)"

text \<open>A snapshot with the given quote info and history.\<close>

definition snapshot_with :: "info_dict \<Rightarrow> price_bar list \<Rightarrow> snapshot" where
  "snapshot_with info' history' =
     \<lparr>ticker_obj = example_provider 0 [], info = info', history = history',
      financials = [], balance_sheet = []\<rparr>"

definition pe_example :: stock_dict where
  "pe_example =
     [(''AAPL'', snapshot_with [(''trailingPE'', VNum (57 / 2))] example_bars),
      (''XYZ'', snapshot_with [(''trailingPE'', VNum 150)] example_bars),
      (''ABC'', snapshot_with [(''trailingPE'', VNum (- 5))] example_bars)]"

text \<open>A snapshot with some numeric fields, and the financials row it gives.\<close>

definition fin_example :: snapshot where
  "fin_example =
     snapshot_with
       [(''shortName'', VStr ''Apple Inc.''), (''currentPrice'', VNum (2469 / 2)),
        (''previousClose'', VNum 1200), (''marketCap'', VNum 1234567),
        (''totalRevenue'', VNum 1234567), (''trailingPE'', VNum (57 / 2)),
        (''debtToEquity'', VNum (3 / 2)), (''profitMargins'', VNum (1 / 4))]
       example_bars"

definition fin_example_row :: financial_row where
  "fin_example_row =
     \<lparr>fin_ticker = ''AAPL'', fin_revenue = ''$1,234,567'', fin_net_income = ''$0'',
      fin_operating_margin = ''0.00%'', fin_profit_margin = ''25.00%'', fin_roe = ''0.00%'',
      fin_debt_equity = ''1.50'', fin_current_ratio = ''0.00'', fin_free_cash_flow = ''$0''\<rparr>"

text \<open>A snapshot whose quote info has a name and nothing else, and what it gives.\<close>

definition sparse_example :: snapshot where
  "sparse_example = snapshot_with [(''shortName'', VStr ''Apple Inc.'')] example_bars"

definition sparse_row :: financial_row where
  "sparse_row =
     \<lparr>fin_ticker = ''AAPL'', fin_revenue = ''$0'', fin_net_income = ''$0'',
      fin_operating_margin = ''0.00%'', fin_profit_margin = ''0.00%'', fin_roe = ''0.00%'',
      fin_debt_equity = ''0.00'', fin_current_ratio = ''0.00'', fin_free_cash_flow = ''$0''\<rparr>"

definition sparse_card :: overview_card where
  "sparse_card =
     \<lparr>subheader = ''AAPL'', label = VStr ''Apple Inc.'', card_value = ''$14.00'',
      card_delta = ''0.00%'', market_cap = ''$0'', pe_ratio = ''N/A'',
      dividend_yield = ''0.00%'', high_52w = ''$N/A'', low_52w = ''$N/A'', sector = ''N/A''\<rparr>"

text \<open>
  A snapshot with a name and a trailing P/E of 28.5, and its overview card when \<open>str\<close>
  writes that number as Python does, \<open>28.5\<close>.
\<close>

definition str_28_5 :: "real \<Rightarrow> string" where
  "str_28_5 x = ''28.5''"

definition pe_card_example :: snapshot where
  "pe_card_example =
     snapshot_with [(''shortName'', VStr ''Apple Inc.''), (''trailingPE'', VNum (57 / 2))]
       example_bars"

definition pe_card :: overview_card where
  "pe_card =
     \<lparr>subheader = ''AAPL'', label = VStr ''Apple Inc.'', card_value = ''$14.00'',
      card_delta = ''0.00%'', market_cap = ''$0'', pe_ratio = ''28.5'',
      dividend_yield = ''0.00%'', high_52w = ''$N/A'', low_52w = ''$N/A'', sector = ''N/A''\<rparr>"

text \<open>The performance row of the example history (closes 10, 12, 14).\<close>

definition example_perf_row :: perf_row where
  "example_perf_row =
     \<lparr>perf_ticker = ''AAPL'', perf_start_price = ''$10.00'', perf_current_price = ''$14.00'',
      perf_total_return = ''40.00%'', perf_volatility = ''2.00''\<rparr>"

text \<open>A snapshot whose price history starts at a close of zero.\<close>

definition zero_start_example :: snapshot where
  "zero_start_example =
     snapshot_with example_info
       [\<lparr>Date = 1, Open = 0, High = 0, Low = 0, Close = 0, Volume = 0\<rparr>,
        \<lparr>Date = 2, Open = 0, High = 5, Low = 0, Close = 5, Volume = 100\<rparr>]"

section \<open>Properties\<close>

subsection \<open>String primitives\<close>

lemma split_on_nonempty: "split_on sep s \<noteq> []"
  by (induction s) (auto simp: Let_def)

lemma join_split_on: "join sep (split_on sep s) = s"
proof (induction s)
  case Nil
  show ?case by simp
next
  case (Cons c cs)
  obtain t ts where r: "split_on sep cs = t # ts"
    using split_on_nonempty [of sep cs] by (cases "split_on sep cs") auto
  with Cons show ?case
    by (cases ts) (auto simp: Let_def)
qed

lemma split_on_no_sep: "t \<in> set (split_on sep s) \<Longrightarrow> sep \<notin> set t"
proof (induction s arbitrary: t)
  case Nil
  then show ?case by simp
next
  case (Cons c cs)
  obtain u us where r: "split_on sep cs = u # us"
    using split_on_nonempty [of sep cs] by (cases "split_on sep cs") auto
  have u: "sep \<notin> set u" and us: "\<And>v. v \<in> set us \<Longrightarrow> sep \<notin> set v"
    using Cons.IH r by auto
  from Cons.prems r u us show ?case
    by (auto simp: Let_def split: if_splits)
qed

lemma upper_Nil_iff: "upper t = [] \<longleftrightarrow> t = []"
  by (simp add: upper_def)

lemma length_upper: "length (upper t) = length t"
  by (simp add: upper_def)

lemma of_char_upper_char:
  "of_char (upper_char c) = (if is_lower c then (of_char c :: nat) - 32 else of_char c)"
  by (auto simp: upper_char_def is_lower_def Let_def)

lemma upper_char_not_lower: "\<not> is_lower (upper_char c)"
  unfolding is_lower_def of_char_upper_char Let_def by auto

lemma upper_no_lower: "c \<in> set (upper t) \<Longrightarrow> \<not> is_lower c"
  by (auto simp: upper_def upper_char_not_lower)

lemma upper_char_space: "is_space (upper_char c) \<longleftrightarrow> is_space c"
  unfolding is_space_def is_lower_def of_char_upper_char Let_def by auto

lemma dropWhile_snoc_keep: "\<not> P x \<Longrightarrow> dropWhile P (ys @ [x]) = dropWhile P ys @ [x]"
  by (induction ys) auto

lemma strip_hd: "strip t \<noteq> [] \<Longrightarrow> \<not> is_space (hd (strip t))"
proof -
  assume ne: "strip t \<noteq> []"
  let ?d = "dropWhile is_space t"
  have d: "?d \<noteq> []"
  proof
    assume "?d = []"
    then have "strip t = []" unfolding strip_def by (simp only: rev.simps dropWhile.simps)
    with ne show False by simp
  qed
  then have h: "\<not> is_space (hd ?d)" by (rule hd_dropWhile)
  obtain x xs where x: "?d = x # xs" using d by (cases ?d) auto
  then have nx: "\<not> is_space x" using h by simp
  have "strip t = x # rev (dropWhile is_space (rev xs))"
    unfolding strip_def x using nx by (simp add: dropWhile_snoc_keep)
  then show ?thesis using nx by simp
qed

lemma strip_last: "strip t \<noteq> [] \<Longrightarrow> \<not> is_space (last (strip t))"
proof -
  assume ne: "strip t \<noteq> []"
  let ?e = "dropWhile is_space (rev (dropWhile is_space t))"
  have e: "?e \<noteq> []" using ne by (simp add: strip_def)
  then have "\<not> is_space (hd ?e)" by (rule hd_dropWhile)
  moreover have "last (strip t) = hd ?e" using e by (simp add: strip_def last_rev)
  ultimately show ?thesis by simp
qed

subsection \<open>C4: parsing of the ticker text\<close>

lemma parse_tickers_refines: "parse_tickers raw = parse_request_spec raw"
  by (simp add: parse_tickers_def parse_request_spec_def filter_map o_def upper_Nil_iff)

lemma parse_tickers_token:
  assumes "t \<in> set (parse_tickers raw)"
  shows "t \<noteq> [] \<and> \<not> is_space (hd t) \<and> \<not> is_space (last t) \<and> (\<forall>c\<in>set t. \<not> is_lower c)"
proof -
  from assms obtain u where u: "strip u \<noteq> []" and t: "t = upper (strip u)"
    by (auto simp: parse_tickers_def)
  have "hd t = upper_char (hd (strip u))" "last t = upper_char (last (strip u))"
    using u t by (simp_all add: upper_def hd_map last_map)
  then show ?thesis
    using u t strip_hd [of u] strip_last [of u]
    by (simp add: upper_char_space upper_Nil_iff upper_no_lower)
qed

lemma parse_tickers_keeps_duplicates: "parse_tickers ''msft,aapl , MSFT'' = [''MSFT'', ''AAPL'', ''MSFT'']"
  by code_simp

text \<open>
  C4. For every (ASCII) raw ticker text the parsed list is the specification's pipeline:
  split on commas, trim, upper-case, drop the tokens that are empty after trimming. The
  split is the inverse of joining with commas and no token contains a comma; the result
  keeps one entry per non-blank token, in input order (nothing is merged or removed as a
  duplicate); every resulting token is non-empty, has no whitespace at either end and no
  lower-case letter.
\<close>

theorem parse_tickers_correct:
  assumes "list_all is_ascii raw"
  shows "parse_tickers raw = parse_request_spec raw
    \<and> join CHR '','' (split_on CHR '','' raw) = raw
    \<and> (\<forall>t\<in>set (split_on CHR '','' raw). CHR '','' \<notin> set t)
    \<and> parse_tickers raw
        = map (\<lambda>t. upper (strip t)) (filter (\<lambda>t. strip t \<noteq> []) (split_on CHR '','' raw))
    \<and> (\<forall>t\<in>set (parse_tickers raw).
          t \<noteq> [] \<and> \<not> is_space (hd t) \<and> \<not> is_space (last t) \<and> (\<forall>c\<in>set t. \<not> is_lower c))"
proof -
  have "\<forall>t\<in>set (split_on CHR '','' raw). CHR '','' \<notin> set t"
    using split_on_no_sep by blast
  moreover have "\<forall>t\<in>set (parse_tickers raw).
      t \<noteq> [] \<and> \<not> is_space (hd t) \<and> \<not> is_space (last t) \<and> (\<forall>c\<in>set t. \<not> is_lower c)"
    using parse_tickers_token by blast
  moreover have "parse_tickers raw
      = map (\<lambda>t. upper (strip t)) (filter (\<lambda>t. strip t \<noteq> []) (split_on CHR '','' raw))"
    by (simp add: parse_tickers_def)
  ultimately show ?thesis
    using parse_tickers_refines [of raw] join_split_on [of "CHR '',''" raw] by blast
qed

theorem parse_tickers_correct_witness:
  "list_all is_ascii '' aapl, , msft ''
    \<and> parse_tickers '' aapl, , msft '' = [''AAPL'', ''MSFT'']
    \<and> parse_request_spec '' aapl, , msft '' = [''AAPL'', ''MSFT'']"
proof -
  have a: "list_all is_ascii '' aapl, , msft ''"
    by code_simp
  have e: "parse_request_spec '' aapl, , msft '' = [''AAPL'', ''MSFT'']"
    by code_simp
  from parse_tickers_correct [OF a] e a show ?thesis
    by simp
qed

subsection \<open>C5: the access gate\<close>

lemma check_password_unlocked:
  "password_correct st = Some True \<Longrightarrow> check_password st p l = (Returned True, st, [])"
  by (simp add: check_password_def)

lemma access_gate_unlocked:
  "password_correct st = Some True \<Longrightarrow> access_gate st p l = (True, st, [])"
  by (simp add: access_gate_def check_password_unlocked)

lemma gate_session_unlocked:
  "password_correct st = Some True \<Longrightarrow> gate_session st inputs = (map (\<lambda>_. (True, [])) inputs, st)"
  by (induction inputs) (auto simp: access_gate_unlocked)

lemma check_password_locked:
  assumes "password_correct st \<noteq> Some True"
  shows "check_password st p l =
    (if l then (if p = CORRECT_PASSWORD then (Rerun, st\<lparr>password_correct := Some True\<rparr>, [PasswordPrompt])
                else (Returned False, st\<lparr>password_correct := Some False\<rparr>, [PasswordPrompt, IncorrectPassword]))
     else (Returned False, st\<lparr>password_correct := Some False\<rparr>, [PasswordPrompt]))"
proof (cases "password_correct st")
  case None
  then show ?thesis by (simp add: check_password_def)
next
  case (Some b)
  with assms have b: "password_correct st = Some False" by simp
  then have "st\<lparr>password_correct := Some False\<rparr> = st" by simp
  with b show ?thesis by (simp add: check_password_def)
qed

lemma access_gate_correct_password:
  assumes "password_correct st \<noteq> Some True"
  shows "access_gate st CORRECT_PASSWORD True = (True, st\<lparr>password_correct := Some True\<rparr>, [])"
  using assms by (simp add: access_gate_def check_password_locked check_password_unlocked)


text \<open>
  C5. The gate compares the entered text with the fixed secret by equality of strings.
  While the session is locked, a Login click with any other text returns false, shows the
  incorrect-password message and leaves the flag false; a Login click with the secret sets
  the flag and reruns the script, which then passes the gate. Once the flag is set, every
  check returns true without a prompt and leaves the session unchanged, whatever the
  widget values, for any number of later script runs.
\<close>

theorem access_gate_correct:
  "(password_correct st \<noteq> Some True \<and> password \<noteq> CORRECT_PASSWORD \<longrightarrow>
      check_password st password True
        = (Returned False, st\<lparr>password_correct := Some False\<rparr>, [PasswordPrompt, IncorrectPassword])
      \<and> access_gate st password True
        = (False, st\<lparr>password_correct := Some False\<rparr>, [PasswordPrompt, IncorrectPassword]))
   \<and> (password_correct st \<noteq> Some True \<longrightarrow>
      check_password st CORRECT_PASSWORD True
        = (Rerun, st\<lparr>password_correct := Some True\<rparr>, [PasswordPrompt])
      \<and> access_gate st CORRECT_PASSWORD True = (True, st\<lparr>password_correct := Some True\<rparr>, []))
   \<and> (password_correct st = Some True \<longrightarrow>
      check_password st password login = (Returned True, st, [])
      \<and> access_gate st password login = (True, st, [])
      \<and> gate_session st inputs = (map (\<lambda>_. (True, [])) inputs, st))"
  by (simp add: check_password_locked check_password_unlocked access_gate_unlocked
      access_gate_correct_password gate_session_unlocked access_gate_def)

theorem access_gate_correct_witness:
  "access_gate fresh_session ''invest2026'' True
      = (False, fresh_session\<lparr>password_correct := Some False\<rparr>, [PasswordPrompt, IncorrectPassword])
   \<and> access_gate (fresh_session\<lparr>password_correct := Some False\<rparr>) ''Invest2026'' True
      = (True, fresh_session\<lparr>password_correct := Some True\<rparr>, [])
   \<and> gate_session (fresh_session\<lparr>password_correct := Some True\<rparr>) [(''wrong'', True), ([], False)]
      = ([(True, []), (True, [])], fresh_session\<lparr>password_correct := Some True\<rparr>)"
proof -
  have 1: "password_correct fresh_session \<noteq> Some True \<and> ''invest2026'' \<noteq> CORRECT_PASSWORD"
    by (simp add: fresh_session_def CORRECT_PASSWORD_def)
  have 2: "password_correct (fresh_session\<lparr>password_correct := Some False\<rparr>) \<noteq> Some True"
    by simp
  have 3: "password_correct (fresh_session\<lparr>password_correct := Some True\<rparr>) = Some True"
    by simp
  have a: "access_gate fresh_session ''invest2026'' True
      = (False, fresh_session\<lparr>password_correct := Some False\<rparr>, [PasswordPrompt, IncorrectPassword])"
    using 1 access_gate_correct [of fresh_session "''invest2026''"] by blast
  have b: "access_gate (fresh_session\<lparr>password_correct := Some False\<rparr>) ''Invest2026'' True
      = (True, fresh_session\<lparr>password_correct := Some True\<rparr>, [])"
    using 2 access_gate_correct [of "fresh_session\<lparr>password_correct := Some False\<rparr>"]
    unfolding CORRECT_PASSWORD_def by simp
  have "gate_session (fresh_session\<lparr>password_correct := Some True\<rparr>) [(''wrong'', True), ([], False)]
      = (map (\<lambda>_. (True, [])) [(''wrong'', True), ([], False)],
         fresh_session\<lparr>password_correct := Some True\<rparr>)"
    using 3 access_gate_correct [of "fresh_session\<lparr>password_correct := Some True\<rparr>"]
    by blast
  then have c: "gate_session (fresh_session\<lparr>password_correct := Some True\<rparr>) [(''wrong'', True), ([], False)]
      = ([(True, []), (True, [])], fresh_session\<lparr>password_correct := Some True\<rparr>)"
    by (simp only: list.map)
  from a b c show ?thesis by blast
qed


subsection \<open>C1: the fetch loop stores whole snapshots only\<close>

lemma try_fetch_Some:
  assumes "try_fetch stock p = Inr (Some s)"
  shows "history s \<noteq> [] \<and> info s \<noteq> [] \<and> ticker_obj s = stock
    \<and> t_info stock = Inr (info s) \<and> t_history stock p = Inr (history s)
    \<and> t_financials stock = Inr (financials s) \<and> t_balance_sheet stock = Inr (balance_sheet s)"
  using assms by (auto simp: try_fetch_def split: sum.splits if_splits)

lemma set_dict_set: "set (dict_set d k v) \<subseteq> insert (k, v) (set d)"
  by (induction d k v rule: dict_set.induct) auto

lemma keys_dict_set: "fst ` set (dict_set d k v) = insert k (fst ` set d)"
  by (induction d k v rule: dict_set.induct) auto

lemma distinct_dict_set: "distinct (map fst d) \<Longrightarrow> distinct (map fst (dict_set d k v))"
  by (induction d k v rule: dict_set.induct) (auto simp: keys_dict_set)

lemma stock_data_fetch_step:
  "stock_data (fetch_step yf p n idx symb st) =
     (case try_fetch (yf idx symb) p of
        Inr (Some snap) \<Rightarrow> dict_set (stock_data st) symb snap
      | _ \<Rightarrow> stock_data st)"
  by (simp add: fetch_step_def Let_def split: sum.splits option.splits)

lemma fetch_loop_entries:
  "(symb, snap) \<in> set (stock_data (fetch_loop yf p n idx symbs st)) \<Longrightarrow>
     (symb, snap) \<in> set (stock_data st) \<or>
     (\<exists>i<length symbs. symbs ! i = symb \<and> try_fetch (yf (idx + i) symb) p = Inr (Some snap))"
proof (induction symbs arbitrary: idx st)
  case Nil
  then show ?case by simp
next
  case (Cons a symbs)
  from Cons.IH [OF Cons.prems [simplified]]
  show ?case
  proof
    assume "(symb, snap) \<in> set (stock_data (fetch_step yf p n idx a st))"
    then have "(symb, snap) \<in> set (stock_data st) \<or> (a = symb \<and> try_fetch (yf idx a) p = Inr (Some snap))"
      using set_dict_set [of "stock_data st" a]
      by (auto simp: stock_data_fetch_step split: sum.splits option.splits)
    then show ?thesis by auto
  next
    assume "\<exists>i<length symbs. symbs ! i = symb \<and> try_fetch (yf (Suc idx + i) symb) p = Inr (Some snap)"
    then obtain i where "i < length symbs" "symbs ! i = symb" "try_fetch (yf (Suc idx + i) symb) p = Inr (Some snap)"
      by blast
    then have "Suc i < length (a # symbs) \<and> (a # symbs) ! Suc i = symb \<and> try_fetch (yf (idx + Suc i) symb) p = Inr (Some snap)"
      by simp
    then show ?thesis by blast
  qed
qed

lemma fetch_loop_keys:
  "fst ` set (stock_data (fetch_loop yf p n idx symbs st)) =
     fst ` set (stock_data st) \<union>
     {symbs ! i | i. i < length symbs \<and> (\<exists>s. try_fetch (yf (idx + i) (symbs ! i)) p = Inr (Some s))}"
proof (induction symbs arbitrary: idx st)
  case Nil
  then show ?case by simp
next
  case (Cons a symbs)
  let ?ok = "\<lambda>j x. \<exists>s. try_fetch (yf j x) p = Inr (Some s)"
  have step: "fst ` set (stock_data (fetch_step yf p n idx a st)) =
      fst ` set (stock_data st) \<union> (if ?ok idx a then {a} else {})"
    by (auto simp: stock_data_fetch_step keys_dict_set split: sum.splits option.splits)
  have split: "{(a # symbs) ! i | i. i < length (a # symbs) \<and> ?ok (idx + i) ((a # symbs) ! i)} =
      (if ?ok idx a then {a} else {}) \<union> {symbs ! i | i. i < length symbs \<and> ?ok (Suc idx + i) (symbs ! i)}"
    (is "?L = ?R")
  proof (intro set_eqI iffI)
    fix x assume "x \<in> ?L"
    then obtain i where i: "i < length (a # symbs)" "x = (a # symbs) ! i" "?ok (idx + i) ((a # symbs) ! i)"
      by blast
    show "x \<in> ?R"
    proof (cases i)
      case 0
      with i show ?thesis by auto
    next
      case (Suc j)
      with i have "j < length symbs \<and> x = symbs ! j \<and> ?ok (Suc idx + j) (symbs ! j)" by simp
      then show ?thesis by blast
    qed
  next
    fix x assume "x \<in> ?R"
    then consider "?ok idx a" "x = a" | j where "j < length symbs" "x = symbs ! j" "?ok (Suc idx + j) (symbs ! j)"
      by (auto split: if_splits)
    then show "x \<in> ?L"
    proof cases
      case 1
      then have "0 < length (a # symbs) \<and> x = (a # symbs) ! 0 \<and> ?ok (idx + 0) ((a # symbs) ! 0)" by simp
      then show ?thesis by blast
    next
      case 2
      then have "Suc j < length (a # symbs) \<and> x = (a # symbs) ! Suc j \<and> ?ok (idx + Suc j) ((a # symbs) ! Suc j)" by simp
      then show ?thesis by blast
    qed
  qed
  show ?case
    unfolding fetch_loop.simps Cons.IH step split by blast
qed

lemma fetch_loop_distinct:
  "distinct (map fst (stock_data st)) \<Longrightarrow>
   distinct (map fst (stock_data (fetch_loop yf p n idx symbs st)))"
  by (induction symbs arbitrary: idx st)
     (auto simp: stock_data_fetch_step distinct_dict_set split: sum.splits option.splits)

lemma fetch_ok_iff:
  "fetch_ok yf p tickers i \<longleftrightarrow> (\<exists>s. try_fetch (yf i (tickers ! i)) p = Inr (Some s))"
  by (auto simp: fetch_ok_def split: sum.splits option.splits)

lemma fetch_all_keys:
  "fst ` set (stock_data (fetch_all yf p tickers)) =
     {tickers ! i | i. i < length tickers \<and> fetch_ok yf p tickers i}"
  by (simp add: fetch_all_def fetch_loop_keys fetch_ok_iff)

text \<open>
  C1. Every entry of the mapping the fetch loop builds has a non-empty price history and a
  non-empty quote-info mapping, and is exactly the snapshot of one request of the run that
  succeeded as a whole. The keys are the symbols with a successful request: a symbol whose
  requests all raised or returned an empty history or empty quote info has no entry.
\<close>

theorem fetch_all_whole_snapshots:
  "(\<forall>(symb, snap) \<in> set (stock_data (fetch_all yf p tickers)).
       history snap \<noteq> [] \<and> info snap \<noteq> []
       \<and> (\<exists>i<length tickers. tickers ! i = symb \<and> try_fetch (yf i symb) p = Inr (Some snap)))
   \<and> fst ` set (stock_data (fetch_all yf p tickers))
       = {tickers ! i | i. i < length tickers \<and> fetch_ok yf p tickers i}
   \<and> distinct (map fst (stock_data (fetch_all yf p tickers)))"
proof (intro conjI ballI)
  fix x assume x: "x \<in> set (stock_data (fetch_all yf p tickers))"
  obtain symb snap where xs: "x = (symb, snap)" by (cases x)
  from x xs have "(symb, snap) \<in> set (stock_data (fetch_loop yf p (length tickers) 0 tickers \<lparr>stock_data = [], events = []\<rparr>))"
    by (simp add: fetch_all_def)
  from fetch_loop_entries [OF this]
  obtain i where i: "i < length tickers" "tickers ! i = symb" "try_fetch (yf i symb) p = Inr (Some snap)"
    by auto
  from try_fetch_Some [OF i(3)] i xs
  show "case x of (symb, snap) \<Rightarrow> history snap \<noteq> [] \<and> info snap \<noteq> []
       \<and> (\<exists>i<length tickers. tickers ! i = symb \<and> try_fetch (yf i symb) p = Inr (Some snap))"
    by auto
next
  show "fst ` set (stock_data (fetch_all yf p tickers))
       = {tickers ! i | i. i < length tickers \<and> fetch_ok yf p tickers i}"
    by (rule fetch_all_keys)
next
  show "distinct (map fst (stock_data (fetch_all yf p tickers)))"
    by (simp add: fetch_all_def fetch_loop_distinct)
qed

lemma example_fetch:
  "stock_data (fetch_all example_provider ''1y'' [''AAPL'', ''BAD'', ''EMPTY'', ''XYZ''])
     = [(''AAPL'', \<lparr>ticker_obj = example_provider 0 ''AAPL'', info = example_info,
           history = example_bars, financials = [], balance_sheet = []\<rparr>)]"
  by (simp add: fetch_all_def fetch_step_def try_fetch_def example_provider_def
      example_info_def example_bars_def)

theorem fetch_all_whole_snapshots_witness:
  "map fst (stock_data (fetch_all example_provider ''1y'' [''AAPL'', ''BAD'', ''EMPTY'', ''XYZ''])) = [''AAPL'']
   \<and> history (snd (hd (stock_data (fetch_all example_provider ''1y'' [''AAPL'', ''BAD'', ''EMPTY'', ''XYZ''])))) \<noteq> []
   \<and> info (snd (hd (stock_data (fetch_all example_provider ''1y'' [''AAPL'', ''BAD'', ''EMPTY'', ''XYZ''])))) \<noteq> []"
proof -
  let ?sd = "stock_data (fetch_all example_provider ''1y'' [''AAPL'', ''BAD'', ''EMPTY'', ''XYZ''])"
  have "\<forall>(symb, snap) \<in> set ?sd. history snap \<noteq> [] \<and> info snap \<noteq> []"
    using fetch_all_whole_snapshots [of example_provider "''1y''" "[''AAPL'', ''BAD'', ''EMPTY'', ''XYZ'']"]
    by blast
  moreover have "?sd \<noteq> []" "map fst ?sd = [''AAPL'']"
    by (simp_all add: example_fetch)
  ultimately show ?thesis
    by (cases ?sd) auto
qed


subsection \<open>C3: total failure\<close>

lemma events_fetch_step_fail:
  "\<not> (\<exists>s. try_fetch (yf idx symb) p = Inr (Some s)) \<Longrightarrow>
     warned_symbols (events (fetch_step yf p n idx symb st))
       = warned_symbols (events st) @ [symb]"
  by (auto simp: fetch_step_def Let_def warned_symbols_def split: sum.splits option.splits)

lemma stock_data_fetch_step_fail:
  "\<not> (\<exists>s. try_fetch (yf idx symb) p = Inr (Some s)) \<Longrightarrow>
     stock_data (fetch_step yf p n idx symb st) = stock_data st"
  by (auto simp: stock_data_fetch_step split: sum.splits option.splits)

lemma fetch_loop_all_fail:
  "(\<And>i. i < length symbs \<Longrightarrow> \<not> (\<exists>s. try_fetch (yf (idx + i) (symbs ! i)) p = Inr (Some s))) \<Longrightarrow>
     stock_data (fetch_loop yf p n idx symbs st) = stock_data st
     \<and> warned_symbols (events (fetch_loop yf p n idx symbs st))
         = warned_symbols (events st) @ symbs"
proof (induction symbs arbitrary: idx st)
  case Nil
  then show ?case by simp
next
  case (Cons a symbs)
  have a: "\<not> (\<exists>s. try_fetch (yf idx a) p = Inr (Some s))"
    using Cons.prems [of 0] by simp
  have rest: "\<And>i. i < length symbs \<Longrightarrow> \<not> (\<exists>s. try_fetch (yf (Suc idx + i) (symbs ! i)) p = Inr (Some s))"
    using Cons.prems [of "Suc i" for i] by simp
  from Cons.IH [of "Suc idx", OF rest]
  show ?case
    using events_fetch_step_fail [where yf = yf and idx = idx and symb = a and p = p] 
      stock_data_fetch_step_fail [where yf = yf and idx = idx and symb = a and p = p] a
    by simp
qed

text \<open>
  C3. If every requested symbol fails, the loop leaves the mapping empty and the run takes
  the total-failure branch and stops (each symbol's own warning has been issued by the
  loop before). If at least one symbol succeeds, the run goes on to render the tabs from
  the mapping of the successful symbols.
\<close>

theorem total_failure_path:
  "((\<forall>i<length tickers. \<not> fetch_ok yf p tickers i) \<longrightarrow>
       stock_data (fetch_all yf p tickers) = []
       \<and> analyze_run yf p tickers = TotalFailure (events (fetch_all yf p tickers))
       \<and> warned_symbols (events (fetch_all yf p tickers)) = tickers)
   \<and> ((\<exists>i<length tickers. fetch_ok yf p tickers i) \<longrightarrow>
       analyze_run yf p tickers
         = RenderTabs (events (fetch_all yf p tickers)) (stock_data (fetch_all yf p tickers))
       \<and> fst ` set (stock_data (fetch_all yf p tickers))
         = {tickers ! i | i. i < length tickers \<and> fetch_ok yf p tickers i})"
proof (intro conjI impI)
  assume fail: "\<forall>i<length tickers. \<not> fetch_ok yf p tickers i"
  then have "\<And>i. i < length tickers \<Longrightarrow> \<not> (\<exists>s. try_fetch (yf (0 + i) (tickers ! i)) p = Inr (Some s))"
    by (simp add: fetch_ok_iff)
  from fetch_loop_all_fail [of tickers yf 0 p "length tickers" "\<lparr>stock_data = [], events = []\<rparr>", OF this]
  have e: "stock_data (fetch_all yf p tickers) = []"
    and w: "warned_symbols (events (fetch_all yf p tickers)) = tickers"
    by (simp_all add: fetch_all_def warned_symbols_def)
  show "stock_data (fetch_all yf p tickers) = []" by (rule e)
  show "analyze_run yf p tickers = TotalFailure (events (fetch_all yf p tickers))"
    by (simp add: analyze_run_def Let_def e)
  show "warned_symbols (events (fetch_all yf p tickers)) = tickers" by (rule w)
next
  assume ok: "\<exists>i<length tickers. fetch_ok yf p tickers i"
  then have "fst ` set (stock_data (fetch_all yf p tickers)) \<noteq> {}"
    unfolding fetch_all_keys by blast
  then have "stock_data (fetch_all yf p tickers) \<noteq> []" by auto
  then show "analyze_run yf p tickers
         = RenderTabs (events (fetch_all yf p tickers)) (stock_data (fetch_all yf p tickers))"
    by (simp add: analyze_run_def Let_def)
  show "fst ` set (stock_data (fetch_all yf p tickers))
         = {tickers ! i | i. i < length tickers \<and> fetch_ok yf p tickers i}"
    by (rule fetch_all_keys)
qed

lemma example_all_fail:
  "i < length [''BAD'', ''EMPTY'', ''XYZ''] \<Longrightarrow> \<not> fetch_ok example_provider ''1y'' [''BAD'', ''EMPTY'', ''XYZ''] i"
  by (auto simp: fetch_ok_def try_fetch_def example_provider_def less_Suc_eq numeral_3_eq_3 example_info_def)

lemma example_one_ok: "fetch_ok example_provider ''1y'' [''BAD'', ''AAPL''] 1"
  by (simp add: fetch_ok_def try_fetch_def example_provider_def example_info_def example_bars_def)

theorem total_failure_path_witness:
  "analyze_run example_provider ''1y'' [''BAD'', ''EMPTY'', ''XYZ'']
      = TotalFailure (events (fetch_all example_provider ''1y'' [''BAD'', ''EMPTY'', ''XYZ'']))
   \<and> warned_symbols (events (fetch_all example_provider ''1y'' [''BAD'', ''EMPTY'', ''XYZ'']))
      = [''BAD'', ''EMPTY'', ''XYZ'']
   \<and> analyze_run example_provider ''1y'' [''BAD'', ''AAPL'']
      = RenderTabs (events (fetch_all example_provider ''1y'' [''BAD'', ''AAPL'']))
          (stock_data (fetch_all example_provider ''1y'' [''BAD'', ''AAPL'']))
   \<and> map fst (stock_data (fetch_all example_provider ''1y'' [''BAD'', ''AAPL''])) = [''AAPL'']"
proof -
  have f: "\<forall>i<length [''BAD'', ''EMPTY'', ''XYZ'']. \<not> fetch_ok example_provider ''1y'' [''BAD'', ''EMPTY'', ''XYZ''] i"
    using example_all_fail by blast
  have s: "\<exists>i<length [''BAD'', ''AAPL'']. fetch_ok example_provider ''1y'' [''BAD'', ''AAPL''] i"
    using example_one_ok by (intro exI [of _ 1]) simp
  have k: "map fst (stock_data (fetch_all example_provider ''1y'' [''BAD'', ''AAPL''])) = [''AAPL'']"
    by (simp add: fetch_all_def fetch_step_def try_fetch_def example_provider_def
      example_info_def example_bars_def)
  show ?thesis
    using f s k
      total_failure_path [of "[''BAD'', ''EMPTY'', ''XYZ'']" example_provider "''1y''"]
      total_failure_path [of "[''BAD'', ''AAPL'']" example_provider "''1y''"]
    by blast
qed

subsection \<open>C2: percent change against the previous close\<close>

lemma dict_get_missing: "map_of d k = None \<Longrightarrow> dict_get d k dflt = dflt"
  by (simp add: dict_get_def)

text \<open>
  C2. With a numeric current price \<open>cp\<close> and previous close \<open>pc\<close>, the percent change
  is \<open>(cp - pc) / pc * 100\<close> when \<open>pc\<close> is positive and exactly 0 when \<open>pc\<close> is
  zero or negative; it is also 0 when the quote info has no previous close, which then
  defaults to 0.
\<close>

theorem change_pct_correct:
  "(current_price info' history' = VNum cp \<and> dict_get info' ''previousClose'' (VNum 0) = VNum pc \<longrightarrow>
       change_pct info' history' = Inr (if 0 < pc then (cp - pc) / pc * 100 else 0))
   \<and> (current_price info' history' = VNum cp \<and> map_of info' ''previousClose'' = None \<longrightarrow>
       change_pct info' history' = Inr 0)"
  by (simp add: change_pct_def py_sub_def py_gt_def bind_e_def dict_get_missing)

lemma example_current_price: "current_price example_info example_bars = VNum 14"
  by (simp add: current_price_def example_info_def dict_get_def)

theorem change_pct_correct_witness:
  "change_pct example_info example_bars = Inr (50 / 3)
   \<and> change_pct [(''currentPrice'', VNum 14), (''previousClose'', VNum (- 5))] [] = Inr 0
   \<and> change_pct [(''currentPrice'', VNum 14)] [] = Inr 0"
proof -
  have a: "current_price example_info example_bars = VNum 14
      \<and> dict_get example_info ''previousClose'' (VNum 0) = VNum 12"
    by (simp add: current_price_def example_info_def dict_get_def)
  have b: "current_price [(''currentPrice'', VNum 14), (''previousClose'', VNum (- 5))] [] = VNum 14
      \<and> dict_get [(''currentPrice'', VNum 14), (''previousClose'', VNum (- 5))] ''previousClose'' (VNum 0) = VNum (- 5)"
    by (simp add: current_price_def dict_get_def)
  have c: "current_price [(''currentPrice'', VNum 14)] [] = VNum 14
      \<and> map_of [(''currentPrice'', VNum 14)] ''previousClose'' = None"
    by (simp add: current_price_def dict_get_def)
  have "change_pct example_info example_bars = Inr (if 0 < (12::real) then (14 - 12) / 12 * 100 else 0)"
    using a change_pct_correct [of example_info example_bars 14 12] by blast
  moreover have "change_pct [(''currentPrice'', VNum 14), (''previousClose'', VNum (- 5))] []
      = Inr (if 0 < (- 5::real) then (14 - (- 5)) / (- 5) * 100 else 0)"
    using b change_pct_correct [of "[(''currentPrice'', VNum 14), (''previousClose'', VNum (- 5))]" "[]" 14 "- 5"]
    by blast
  moreover have "change_pct [(''currentPrice'', VNum 14)] [] = Inr 0"
    using c change_pct_correct [of "[(''currentPrice'', VNum 14)]" "[]" 14] by blast
  ultimately show ?thesis by simp
qed


subsection \<open>C6: the P/E bar chart\<close>

lemma pe_entry_number:
  "dict_get (info d) ''trailingPE'' VNone = VNum x \<Longrightarrow>
     pe_entry t d = Inr (if 0 < x \<and> x < 100 then Some (t, x) else None)"
  by (auto simp: pe_entry_def truthy_def py_gt_def py_lt_def bind_e_def Let_def)

lemma pe_entry_missing:
  "dict_get (info d) ''trailingPE'' VNone = VNone \<Longrightarrow> pe_entry t d = Inr None"
  by (simp add: pe_entry_def truthy_def Let_def)

lemma pe_data_numbers:
  "(\<forall>(t, d) \<in> set sd. is_number (dict_get (info d) ''trailingPE'' VNone)) \<Longrightarrow>
     pe_data sd = Inr (map (\<lambda>(t, d). (t, trailing_pe d))
                      (filter (\<lambda>(t, d). 0 < trailing_pe d \<and> trailing_pe d < 100) sd))"
proof (induction sd)
  case Nil
  show ?case by simp
next
  case (Cons a sd)
  obtain t d where a: "a = (t, d)" by (cases a)
  from Cons.prems a obtain x where x: "dict_get (info d) ''trailingPE'' VNone = VNum x"
    by (auto simp: is_number_def split: pvalue.splits)
  have ih: "pe_data sd = Inr (map (\<lambda>(t, d). (t, trailing_pe d))
                      (filter (\<lambda>(t, d). 0 < trailing_pe d \<and> trailing_pe d < 100) sd))"
    using Cons by simp
  show ?case
    by (simp add: a ih pe_entry_number [OF x] bind_e_def trailing_pe_def x num_of_def)
qed

text \<open>
  C6. A symbol with a numeric trailing P/E is put on the P/E bar chart exactly when the
  value is above 0 and below 100; a symbol without a trailing P/E is left out. For a
  mapping whose P/E values are all numbers the chart holds, in order, the symbols with
  \<open>0 < PE < 100\<close> and no others.
\<close>

theorem pe_chart_filter:
  "(dict_get (info d) ''trailingPE'' VNone = VNum x \<longrightarrow>
       pe_entry t d = Inr (if 0 < x \<and> x < 100 then Some (t, x) else None))
   \<and> (dict_get (info d) ''trailingPE'' VNone = VNone \<longrightarrow> pe_entry t d = Inr None)
   \<and> ((\<forall>(t, d) \<in> set sd. is_number (dict_get (info d) ''trailingPE'' VNone)) \<longrightarrow>
       pe_data sd = Inr (map (\<lambda>(t, d). (t, trailing_pe d))
                      (filter (\<lambda>(t, d). 0 < trailing_pe d \<and> trailing_pe d < 100) sd)))"
  using pe_entry_number pe_entry_missing pe_data_numbers by blast

theorem pe_chart_filter_witness:
  "list_all (\<lambda>(t, d). is_number (dict_get (info d) ''trailingPE'' VNone)) pe_example
   \<and> map (\<lambda>(t, d). (t, trailing_pe d)) pe_example = [(''AAPL'', 57 / 2), (''XYZ'', 150), (''ABC'', - 5)]
   \<and> pe_data pe_example = Inr [(''AAPL'', 57 / 2)]"
proof -
  have n: "list_all (\<lambda>(t, d). is_number (dict_get (info d) ''trailingPE'' VNone)) pe_example"
    by (simp add: pe_example_def snapshot_with_def dict_get_def is_number_def)
  then have h: "\<forall>(t, d) \<in> set pe_example. is_number (dict_get (info d) ''trailingPE'' VNone)"
    by (simp add: list_all_iff)
  have v: "map (\<lambda>(t, d). (t, trailing_pe d)) pe_example = [(''AAPL'', 57 / 2), (''XYZ'', 150), (''ABC'', - 5)]"
    by (simp add: pe_example_def snapshot_with_def dict_get_def trailing_pe_def num_of_def)
  have f: "map (\<lambda>(t, d). (t, trailing_pe d))
             (filter (\<lambda>(t, d). 0 < trailing_pe d \<and> trailing_pe d < 100) pe_example) = [(''AAPL'', 57 / 2)]"
    by (simp add: pe_example_def snapshot_with_def dict_get_def trailing_pe_def num_of_def)
  have "pe_data pe_example = Inr (map (\<lambda>(t, d). (t, trailing_pe d))
             (filter (\<lambda>(t, d). 0 < trailing_pe d \<and> trailing_pe d < 100) pe_example))"
    using h pe_chart_filter [of _ _ _ pe_example] by blast
  with n v f show ?thesis by simp
qed

subsection \<open>C7: total return in the performance table\<close>

lemma total_return_finite:
  "start_price \<noteq> 0 \<Longrightarrow>
     total_return start_price end_price = Finite ((end_price - start_price) / start_price * 100)"
  by (simp add: total_return_def np_div_def np_mul_def)

lemma perf_row_of_short: "length (history data) \<le> 1 \<Longrightarrow> perf_row_of t data = None"
  by (simp add: perf_row_of_def Let_def)

lemma perf_data_tickers:
  "map perf_ticker (perf_data sd) = map fst (filter (\<lambda>(t, d). 2 \<le> length (history d)) sd)"
proof (induction sd)
  case Nil
  show ?case by simp
next
  case (Cons a sd)
  obtain t d where a: "a = (t, d)" by (cases a)
  show ?case
  proof (cases "2 \<le> length (history d)")
    case True
    then show ?thesis using Cons a by (simp add: perf_row_of_def Let_def)
  next
    case False
    then have "perf_row_of t d = None" by (simp add: perf_row_of_short)
    with False Cons a show ?thesis by simp
  qed
qed

text \<open>
  C7. For a history of at least two points whose first close is not zero, the total return
  is \<open>(last close - first close) / first close * 100\<close>, and the performance row shows it
  with two decimals and a percent sign. A history of zero or one point produces no row at
  all, so the performance table has exactly the symbols with at least two points, in
  order.
\<close>

theorem total_return_pct_correct:
  "(2 \<le> length (history data) \<and> Close (hd (history data)) \<noteq> 0 \<longrightarrow>
      total_return (Close (hd (history data))) (Close (last (history data)))
        = Finite ((Close (last (history data)) - Close (hd (history data)))
                    / Close (hd (history data)) * 100)
      \<and> map_option perf_total_return (perf_row_of t data)
        = Some (format_f False 2 ((Close (last (history data)) - Close (hd (history data)))
                    / Close (hd (history data)) * 100) @ ''%''))
   \<and> (length (history data) \<le> 1 \<longrightarrow> perf_row_of t data = None)
   \<and> map perf_ticker (perf_data sd) = map fst (filter (\<lambda>(t, d). 2 \<le> length (history d)) sd)"
proof (intro conjI impI)
  assume h: "2 \<le> length (history data) \<and> Close (hd (history data)) \<noteq> 0"
  then show "total_return (Close (hd (history data))) (Close (last (history data)))
        = Finite ((Close (last (history data)) - Close (hd (history data)))
                    / Close (hd (history data)) * 100)"
    by (simp add: total_return_finite)
  from h show "map_option perf_total_return (perf_row_of t data)
        = Some (format_f False 2 ((Close (last (history data)) - Close (hd (history data)))
                    / Close (hd (history data)) * 100) @ ''%'')"
    by (simp add: perf_row_of_def Let_def total_return_finite format_np_def)
next
  assume "length (history data) \<le> 1"
  then show "perf_row_of t data = None" by (rule perf_row_of_short)
next
  show "map perf_ticker (perf_data sd) = map fst (filter (\<lambda>(t, d). 2 \<le> length (history d)) sd)"
    by (rule perf_data_tickers)
qed

lemma format_40: "format_f False 2 ((14 - 10) / 10 * 100) = ''40.00''"
  by (simp add: format_f_def round_half_even_def Let_def digits10.simps digit_char_def zero_pad_def)

theorem total_return_pct_correct_witness:
  "map_option perf_total_return (perf_row_of ''AAPL'' (snapshot_with example_info example_bars))
      = Some ''40.00%''
   \<and> perf_row_of ''AAPL'' (snapshot_with example_info [hd example_bars]) = None
   \<and> perf_row_of ''AAPL'' (snapshot_with example_info []) = None"
proof -
  let ?d = "snapshot_with example_info example_bars"
  have h: "2 \<le> length (history ?d) \<and> Close (hd (history ?d)) \<noteq> 0"
    by (simp add: snapshot_with_def example_bars_def)
  have c: "Close (hd (history ?d)) = 10" "Close (last (history ?d)) = 14"
    by (simp_all add: snapshot_with_def example_bars_def)
  have "map_option perf_total_return (perf_row_of ''AAPL'' ?d)
      = Some (format_f False 2 ((Close (last (history ?d)) - Close (hd (history ?d)))
                    / Close (hd (history ?d)) * 100) @ ''%'')"
    using h total_return_pct_correct [of ?d "''AAPL''"] by blast
  then have a: "map_option perf_total_return (perf_row_of ''AAPL'' ?d) = Some ''40.00%''"
    unfolding c format_40 by simp
  have s1: "length (history (snapshot_with example_info [hd example_bars])) \<le> 1"
    by (simp add: snapshot_with_def)
  have s0: "length (history (snapshot_with example_info [])) \<le> 1"
    by (simp add: snapshot_with_def)
  have b: "perf_row_of ''AAPL'' (snapshot_with example_info [hd example_bars]) = None"
    using s1 total_return_pct_correct [of "snapshot_with example_info [hd example_bars]" "''AAPL''"]
    by blast
  have d: "perf_row_of ''AAPL'' (snapshot_with example_info []) = None"
    using s0 total_return_pct_correct [of "snapshot_with example_info []" "''AAPL''"]
    by blast
  from a b d show ?thesis by blast
qed


subsection \<open>C10: volatility is the sample standard deviation\<close>

lemma pd_std_sample:
  "2 \<le> length xs \<Longrightarrow> pd_std 1 xs = Finite (sample_std xs)"
  by (simp add: pd_std_def sample_std_def of_nat_diff)

lemma pd_std_population:
  "1 \<le> length xs \<Longrightarrow> pd_std 0 xs = Finite (population_std xs)"
  by (cases xs) (simp_all add: pd_std_def population_std_def)

text \<open>
  C10. The volatility of a performance row is the sample standard deviation of the closes,
  the square root of the sum of squared deviations over \<open>n - 1\<close> (the \<open>ddof = 1\<close> default
  of \<open>std\<close>), shown with two decimals; rows exist only for histories of at least two
  points, where \<open>n - 1\<close> is positive.
\<close>

theorem volatility_is_sample_std:
  "(2 \<le> length (history data) \<longrightarrow>
      pd_std 1 (map Close (history data)) = Finite (sample_std (map Close (history data)))
      \<and> 0 < real (length (map Close (history data))) - 1
      \<and> map_option perf_volatility (perf_row_of t data)
          = Some (format_f False 2 (sample_std (map Close (history data)))))
   \<and> (length (history data) \<le> 1 \<longrightarrow> perf_row_of t data = None)"
proof (intro conjI impI)
  assume h: "2 \<le> length (history data)"
  then have l: "2 \<le> length (map Close (history data))" by simp
  from pd_std_sample [OF l]
  show s: "pd_std 1 (map Close (history data)) = Finite (sample_std (map Close (history data)))" .
  from h show "0 < real (length (map Close (history data))) - 1" by simp
  from h have "perf_volatility (the (perf_row_of t data))
      = format_np False 2 (pd_std 1 (map Close (history data)))"
    by (simp add: perf_row_of_def Let_def)
  moreover from h have "perf_row_of t data \<noteq> None"
    by (simp add: perf_row_of_def Let_def)
  ultimately show "map_option perf_volatility (perf_row_of t data)
          = Some (format_f False 2 (sample_std (map Close (history data))))"
    unfolding s by (auto simp: format_np_def)
next
  assume "length (history data) \<le> 1"
  then show "perf_row_of t data = None" by (rule perf_row_of_short)
qed

lemma example_closes: "map Close example_bars = [10, 12, 14]"
  by (simp add: example_bars_def)

lemma example_sum_sq_dev: "sum_sq_dev [10, 12, 14] = 8"
  by (simp add: sum_sq_dev_def mean_def)

lemma example_sample_std: "sample_std [10, 12, 14] = 2"
proof -
  have "sample_std [10, 12, 14] = sqrt 4"
    by (simp add: sample_std_def example_sum_sq_dev)
  also have "sqrt 4 = 2"
    using real_sqrt_abs [of 2] by simp
  finally show ?thesis .
qed

lemma example_population_std: "population_std [10, 12, 14] = sqrt (8 / 3)"
  by (simp add: population_std_def example_sum_sq_dev)

lemma sqrt_8_3_less: "sqrt (8 / 3) < 2"
proof -
  have "sqrt (8 / 3) < sqrt 4" by (rule real_sqrt_less_mono) simp
  also have "sqrt 4 = 2" using real_sqrt_abs [of 2] by simp
  finally show ?thesis .
qed

lemma format_2: "format_f False 2 2 = ''2.00''"
  by (simp add: format_f_def round_half_even_def Let_def digits10.simps digit_char_def zero_pad_def)

theorem volatility_is_sample_std_witness:
  "map_option perf_volatility (perf_row_of ''AAPL'' (snapshot_with example_info example_bars))
      = Some ''2.00''
   \<and> sample_std (map Close example_bars) = 2
   \<and> population_std (map Close example_bars) < 2"
proof -
  let ?d = "snapshot_with example_info example_bars"
  have h: "2 \<le> length (history ?d)"
    by (simp add: snapshot_with_def example_bars_def)
  have c: "map Close (history ?d) = [10, 12, 14]"
    by (simp add: snapshot_with_def example_closes)
  have "map_option perf_volatility (perf_row_of ''AAPL'' ?d)
      = Some (format_f False 2 (sample_std (map Close (history ?d))))"
    using h volatility_is_sample_std [of ?d "''AAPL''"] by blast
  then have "map_option perf_volatility (perf_row_of ''AAPL'' ?d) = Some ''2.00''"
    unfolding c example_sample_std format_2 .
  then show ?thesis
    by (simp add: example_closes example_sample_std example_population_std sqrt_8_3_less)
qed

subsection \<open>The shape of formatted numbers\<close>

lemma digit_char_is_digit: "d < 10 \<Longrightarrow> is_digit (digit_char d)"
proof -
  assume "d < 10"
  then consider "d = 0" | "d = 1" | "d = 2" | "d = 3" | "d = 4"
    | "d = 5" | "d = 6" | "d = 7" | "d = 8" | "d = 9"
    by atomize_elim arith
  then show ?thesis
    by cases (simp_all add: digit_char_def is_digit_def)
qed

lemma is_digit_zero: "is_digit CHR ''0''"
  by (simp add: is_digit_def)

lemma is_digit_not_punct: "is_digit c \<Longrightarrow> c \<noteq> CHR '','' \<and> c \<noteq> CHR ''.'' \<and> c \<noteq> CHR ''-''"
  by (auto simp: is_digit_def)

lemma digits10_digits: "c \<in> set (digits10 n) \<Longrightarrow> is_digit c"
proof (induction n arbitrary: c rule: digits10.induct)
  case (1 n)
  show ?case
  proof (cases "n < 10")
    case True
    with "1.prems" show ?thesis
      by (simp add: digits10.simps [of n] digit_char_is_digit)
  next
    case False
    with "1.prems" have "c \<in> set (digits10 (n div 10)) \<or> c = digit_char (n mod 10)"
      by (auto simp: digits10.simps [of n])
    then show ?thesis
      using "1.IH" [OF False] by (auto simp: digit_char_is_digit)
  qed
qed

lemma digits10_nonempty: "digits10 n \<noteq> []"
  by (simp add: digits10.simps [of n])

lemma length_digits10_small: "n < 100 \<Longrightarrow> length (digits10 n) \<le> 2"
proof (cases "n < 10")
  case True
  then show ?thesis by (simp add: digits10.simps [of n])
next
  case False
  assume "n < 100"
  then have "n div 10 < 10" by simp
  then have "length (digits10 (n div 10)) = 1"
    by (simp add: digits10.simps [of "n div 10"])
  with False show ?thesis by (simp add: digits10.simps [of n])
qed

lemma zero_pad_2:
  assumes "n < 100"
  obtains a b where "zero_pad 2 (digits10 n) = [a, b]" "is_digit a" "is_digit b"
proof -
  let ?ds = "digits10 n"
  have len: "length ?ds = 1 \<or> length ?ds = 2"
  proof -
    have "length ?ds \<noteq> 0" using digits10_nonempty [of n] by simp
    with length_digits10_small [OF assms] show ?thesis by arith
  qed
  have dig: "\<And>c. c \<in> set ?ds \<Longrightarrow> is_digit c" by (rule digits10_digits)
  from len show ?thesis
  proof
    assume "length ?ds = 1"
    then obtain b where b: "?ds = [b]" by (cases ?ds) auto
    then have "zero_pad 2 ?ds = [CHR ''0'', b]" by (simp add: zero_pad_def numeral_2_eq_2)
    moreover have "is_digit b" using dig b by simp
    ultimately show ?thesis using that is_digit_zero by blast
  next
    assume "length ?ds = 2"
    then obtain a b where ab: "?ds = [a, b]"
      by (cases ?ds; cases "tl ?ds") auto
    then have "zero_pad 2 ?ds = [a, b]" by (simp add: zero_pad_def)
    moreover have "is_digit a" "is_digit b" using dig ab by simp_all
    ultimately show ?thesis using that by blast
  qed
qed

lemma group3_chars: "c \<in> set (group3 ds) \<Longrightarrow> c \<in> set ds \<or> c = CHR '',''"
proof (induction ds arbitrary: c rule: group3.induct)
  case (1 ds)
  show ?case
  proof (cases "length ds \<le> 3")
    case True
    with "1.prems" show ?thesis by (simp add: group3.simps [of ds])
  next
    case False
    with "1.prems" have "c \<in> set (group3 (take (length ds - 3) ds)) \<or> c = CHR '',''
        \<or> c \<in> set (drop (length ds - 3) ds)"
      by (auto simp: group3.simps [of ds])
    then show ?thesis
      using "1.IH" [OF False] by (auto dest: in_set_takeD in_set_dropD)
  qed
qed

lemma group3_nonempty: "ds \<noteq> [] \<Longrightarrow> group3 ds \<noteq> []"
  by (simp add: group3.simps [of ds])

lemma format_f_two_decimals: "two_decimals (format_f grouping 2 x)"
proof -
  define scaled where "scaled = nat (round_half_even (\<bar>x\<bar> * 10 ^ 2))"
  define ip where "ip = (if grouping then group3 (digits10 (scaled div 10 ^ 2))
                         else digits10 (scaled div 10 ^ 2))"
  have "scaled mod 10 ^ 2 < 100" by simp
  then obtain a b where ab: "zero_pad 2 (digits10 (scaled mod 10 ^ 2)) = [a, b]"
    and d: "is_digit a" "is_digit b"
    by (rule zero_pad_2)
  have ip: "ip \<noteq> []"
    by (simp add: ip_def digits10_nonempty group3_nonempty)
  have "format_f grouping 2 x = (if x < 0 then ''-'' else []) @ ip @ [CHR ''.'', a, b]"
    unfolding format_f_def Let_def scaled_def [symmetric] ip_def [symmetric] ab by simp
  then show ?thesis
    using d ip by (simp add: two_decimals_def)
qed

lemma format_f_no_comma: "CHR '','' \<notin> set (format_f False prec x)"
proof
  assume "CHR '','' \<in> set (format_f False prec x)"
  then have "is_digit CHR '','' \<or> CHR '','' \<in> set (replicate
      (prec - length (digits10 (nat (round_half_even (\<bar>x\<bar> * 10 ^ prec)) mod 10 ^ prec))) CHR ''0'')"
    by (auto simp: format_f_def Let_def zero_pad_def dest: digits10_digits split: if_splits)
  then show False
    by (auto simp: is_digit_def)
qed

lemma format_f_no_point: "CHR ''.'' \<notin> set (format_f grouping 0 x)"
proof
  assume "CHR ''.'' \<in> set (format_f grouping 0 x)"
  then have "CHR ''.'' \<in> set (digits10 (nat (round_half_even (\<bar>x\<bar> * 10 ^ 0)) div 10 ^ 0))"
    by (auto simp: format_f_def Let_def dest!: group3_chars split: if_splits)
  then have "is_digit CHR ''.''" by (rule digits10_digits)
  then show False by (simp add: is_digit_def)
qed

lemma split_on_no_sep_id: "sep \<notin> set s \<Longrightarrow> split_on sep s = [s]"
  by (induction s) (auto simp: Let_def)

lemma split_on_append_sep: "split_on sep (a @ sep # b) = split_on sep a @ split_on sep b"
proof (induction a)
  case Nil
  show ?case by simp
next
  case (Cons c a)
  obtain g gs where g: "split_on sep a = g # gs"
    using split_on_nonempty [of sep a] by (cases "split_on sep a") auto
  show ?case
    by (simp add: Cons.IH g Let_def)
qed

lemma digits_no_comma: "list_all is_digit ds \<Longrightarrow> CHR '','' \<notin> set ds"
  by (auto simp: list_all_iff dest: is_digit_not_punct)

lemma group3_groups:
  "list_all is_digit ds \<Longrightarrow> ds \<noteq> [] \<Longrightarrow>
     list_all (list_all is_digit) (split_on CHR '','' (group3 ds))
     \<and> 1 \<le> length (hd (split_on CHR '','' (group3 ds)))
     \<and> length (hd (split_on CHR '','' (group3 ds))) \<le> 3
     \<and> list_all (\<lambda>g. length g = 3) (tl (split_on CHR '','' (group3 ds)))"
proof (induction ds rule: group3.induct)
  case (1 ds)
  show ?case
  proof (cases "length ds \<le> 3")
    case True
    have "split_on CHR '','' (group3 ds) = [ds]"
      using True digits_no_comma [OF "1.prems"(1)]
      by (simp add: group3.simps [of ds] split_on_no_sep_id)
    with True "1.prems" show ?thesis
      by (cases ds) simp_all
  next
    case False
    let ?a = "take (length ds - 3) ds" and ?b = "drop (length ds - 3) ds"
    have a: "list_all is_digit ?a" "?a \<noteq> []"
      using "1.prems"(1) False by (auto simp: list_all_iff dest: in_set_takeD)
    have b: "list_all is_digit ?b" "length ?b = 3"
      using "1.prems"(1) False by (auto simp: list_all_iff dest: in_set_dropD)
    have sb: "split_on CHR '','' ?b = [?b]"
      using digits_no_comma [OF b(1)] by (rule split_on_no_sep_id)
    have eq: "split_on CHR '','' (group3 ds) = split_on CHR '','' (group3 ?a) @ [?b]"
      using False by (simp add: group3.simps [of ds] split_on_append_sep sb)
    obtain g gs where g: "split_on CHR '','' (group3 ?a) = g # gs"
      using split_on_nonempty [of "CHR '',''" "group3 ?a"]
      by (cases "split_on CHR '','' (group3 ?a)") auto
    from "1.IH" [OF False a] g b show ?thesis
      unfolding eq g by simp
  qed
qed

lemma group3_hd_not_minus: "list_all is_digit ds \<Longrightarrow> ds \<noteq> [] \<Longrightarrow> hd (group3 ds) \<noteq> CHR ''-''"
proof
  assume d: "list_all is_digit ds" and n: "ds \<noteq> []" and h: "hd (group3 ds) = CHR ''-''"
  have "group3 ds \<noteq> []" using n by (rule group3_nonempty)
  then have "hd (group3 ds) \<in> set (group3 ds)" by simp
  then have "CHR ''-'' \<in> set ds \<or> CHR ''-'' = CHR '',''"
    using h group3_chars [of "CHR ''-''" ds] by simp
  then have "is_digit CHR ''-''" using d by (auto simp: list_all_iff)
  then show False by (simp add: is_digit_def)
qed

lemma digits10_all: "list_all is_digit (digits10 n)"
  by (auto simp: list_all_iff dest: digits10_digits)

lemma format_f_grouped: "grouped3 (format_f True 0 x)"
proof -
  define ds where "ds = digits10 (nat (round_half_even (\<bar>x\<bar> * 10 ^ 0)) div 10 ^ 0)"
  have d: "list_all is_digit ds" "ds \<noteq> []"
    by (simp_all add: ds_def digits10_all digits10_nonempty)
  have f: "format_f True 0 x = (if x < 0 then ''-'' else []) @ group3 ds"
    by (simp add: format_f_def Let_def ds_def)
  have g: "group3 ds \<noteq> []" using d(2) by (rule group3_nonempty)
  have "(if format_f True 0 x \<noteq> [] \<and> hd (format_f True 0 x) = CHR ''-''
         then tl (format_f True 0 x) else format_f True 0 x) = group3 ds"
    using g group3_hd_not_minus [OF d] by (simp add: f)
  then show ?thesis
    unfolding grouped3_def Let_def using group3_groups [OF d] by simp
qed

lemma format_f_nonempty: "format_f grouping prec x \<noteq> []"
  by (simp add: format_f_def Let_def digits10_nonempty group3_nonempty)

lemma dollars_2dp_format: "dollars_2dp (CHR ''$'' # format_f False 2 x)"
  by (simp add: dollars_2dp_def format_f_two_decimals format_f_no_comma)

lemma dollars_0dp_format: "dollars_0dp (CHR ''$'' # format_f True 0 x)"
  by (simp add: dollars_0dp_def format_f_grouped format_f_no_point)

lemma percent_2dp_format: "percent_2dp (format_f False 2 x @ ''%'')"
  by (simp add: percent_2dp_def format_f_two_decimals format_f_no_comma butlast_append)

lemma plain_2dp_format: "plain_2dp (format_f False 2 x)"
  by (simp add: plain_2dp_def format_f_two_decimals format_f_no_comma)

subsection \<open>The formatted fields of the views\<close>

lemma format_zero_money: "format_f True 0 0 = ''0''"
  by (simp add: format_f_def round_half_even_def Let_def digits10.simps digit_char_def group3.simps)

lemma format_zero_2: "format_f False 2 0 = ''0.00''"
  by (simp add: format_f_def round_half_even_def Let_def digits10.simps digit_char_def zero_pad_def)

lemma money0_number:
  "dict_get info' key (VNum 0) = VNum x \<Longrightarrow> money0 info' key = Inr (CHR ''$'' # format_f True 0 x)"
  by (simp add: money0_def fmt_def bind_e_def)

lemma percent2_number:
  "dict_get info' key (VNum 0) = VNum x \<Longrightarrow>
     percent2 info' key = Inr (format_f False 2 (x * 100) @ ''%'')"
  by (simp add: percent2_def times100_def fmt_def bind_e_def)

lemma ratio2_number:
  "dict_get info' key (VNum 0) = VNum x \<Longrightarrow> ratio2 info' key = Inr (format_f False 2 x)"
  by (simp add: ratio2_def fmt_def)

lemma metric_value_number:
  "current_price info' history' = VNum p \<Longrightarrow>
     metric_value info' history' = Inr (CHR ''$'' # format_f False 2 p)"
  by (simp add: metric_value_def fmt_def bind_e_def)

lemma metric_cell_number:
  "dict_get info' metric (VStr ''N/A'') = VNum x \<Longrightarrow>
     metric_cell info' metric =
       VStr (if metric = ''marketCap'' then CHR ''$'' # format_f True 0 x
             else if metric = ''dividendYield'' then format_f False 2 (x * 100) @ ''%''
             else format_f False 2 x)"
  by (simp add: metric_cell_def)

lemma plain_number:
  "dict_get info' key (VStr ''N/A'') = VNum x \<Longrightarrow> plain num_repr info' key = num_repr x"
  by (simp add: plain_def py_str_def)

lemma money0_missing: "map_of info' key = None \<Longrightarrow> money0 info' key = Inr ''$0''"
  by (simp add: money0_number [of info' key 0] dict_get_missing format_zero_money)

lemma percent2_missing: "map_of info' key = None \<Longrightarrow> percent2 info' key = Inr ''0.00%''"
  using percent2_number [of info' key 0] by (simp add: dict_get_missing format_zero_2)

lemma ratio2_missing: "map_of info' key = None \<Longrightarrow> ratio2 info' key = Inr ''0.00''"
  by (simp add: ratio2_number [of info' key 0] dict_get_missing format_zero_2)

lemma plain_missing: "map_of info' key = None \<Longrightarrow> plain num_repr info' key = ''N/A''"
  by (simp add: plain_def py_str_def dict_get_missing)

lemma metric_cell_missing: "map_of info' key = None \<Longrightarrow> metric_cell info' key = VStr ''N/A''"
  by (simp add: metric_cell_def dict_get_missing)

lemma overview_card_fields:
  assumes "overview_card_of num_repr t data = Inr c"
  shows "metric_value (info data) (history data) = Inr (card_value c)"
    and "money0 (info data) ''marketCap'' = Inr (market_cap c)"
    and "percent2 (info data) ''dividendYield'' = Inr (dividend_yield c)"
    and "pe_ratio c = plain num_repr (info data) ''trailingPE''"
    and "high_52w c = CHR ''$'' # plain num_repr (info data) ''fiftyTwoWeekHigh''"
    and "low_52w c = CHR ''$'' # plain num_repr (info data) ''fiftyTwoWeekLow''"
    and "sector c = plain num_repr (info data) ''sector''"
  using assms
  by (auto simp: overview_card_of_def Let_def bind_e_def split: sum.splits)

lemma financial_row_fields:
  assumes "financial_row_of t data = Inr r"
  shows "money0 (info data) ''totalRevenue'' = Inr (fin_revenue r)"
    and "money0 (info data) ''netIncomeToCommon'' = Inr (fin_net_income r)"
    and "percent2 (info data) ''operatingMargins'' = Inr (fin_operating_margin r)"
    and "percent2 (info data) ''profitMargins'' = Inr (fin_profit_margin r)"
    and "percent2 (info data) ''returnOnEquity'' = Inr (fin_roe r)"
    and "ratio2 (info data) ''debtToEquity'' = Inr (fin_debt_equity r)"
    and "ratio2 (info data) ''currentRatio'' = Inr (fin_current_ratio r)"
    and "money0 (info data) ''freeCashflow'' = Inr (fin_free_cash_flow r)"
  using assms
  by (auto simp: financial_row_of_def Let_def bind_e_def split: sum.splits)

subsection \<open>Evaluated examples\<close>

lemmas format_eval = format_f_def round_half_even_def Let_def digits10.simps digit_char_def
  group3.simps zero_pad_def

lemma fin_example_info:
  "map_of (info fin_example) ''totalRevenue'' = Some (VNum 1234567)"
  "map_of (info fin_example) ''netIncomeToCommon'' = None"
  "map_of (info fin_example) ''operatingMargins'' = None"
  "map_of (info fin_example) ''profitMargins'' = Some (VNum (1 / 4))"
  "map_of (info fin_example) ''returnOnEquity'' = None"
  "map_of (info fin_example) ''debtToEquity'' = Some (VNum (3 / 2))"
  "map_of (info fin_example) ''currentRatio'' = None"
  "map_of (info fin_example) ''freeCashflow'' = None"
  by (simp_all add: fin_example_def snapshot_with_def)

lemma format_1234567: "format_f True 0 1234567 = ''1,234,567''"
  by (simp add: format_eval)

lemma format_25: "format_f False 2 25 = ''25.00''"
  by (simp add: format_eval)

lemma format_150: "format_f False 2 (3 / 2) = ''1.50''"
  by (simp add: format_eval)

lemma format_price: "format_f False 2 (2469 / 2) = ''1234.50''"
  by (simp add: format_eval)

lemma format_14: "format_f False 2 14 = ''14.00''"
  by (simp add: format_eval)

lemma currency_2dp_examples:
  "currency_2dp 1234567 = ''$1,234,567.00''"
  "currency_2dp (2469 / 2) = ''$1,234.50''"
  by (simp_all add: currency_2dp_def format_eval)

lemma fin_example_row_eval: "financial_row_of ''AAPL'' fin_example = Inr fin_example_row"
proof -
  have "money0 (info fin_example) ''totalRevenue'' = Inr ''$1,234,567''"
    using money0_number [of "info fin_example" "''totalRevenue''" 1234567]
    by (simp add: dict_get_def fin_example_info format_1234567)
  moreover have "percent2 (info fin_example) ''profitMargins'' = Inr ''25.00%''"
    using percent2_number [of "info fin_example" "''profitMargins''" "1 / 4"]
    by (simp add: dict_get_def fin_example_info format_25)
  moreover have "ratio2 (info fin_example) ''debtToEquity'' = Inr ''1.50''"
    using ratio2_number [of "info fin_example" "''debtToEquity''" "3 / 2"]
    by (simp add: dict_get_def fin_example_info format_150)
  ultimately show ?thesis
    by (simp add: financial_row_of_def Let_def bind_e_def fin_example_row_def
        money0_missing percent2_missing ratio2_missing fin_example_info)
qed

lemma fin_example_price: "metric_value (info fin_example) (history fin_example) = Inr ''$1234.50''"
proof -
  have "current_price (info fin_example) (history fin_example) = VNum (2469 / 2)"
    by (simp add: current_price_def dict_get_def fin_example_def snapshot_with_def)
  from metric_value_number [OF this] show ?thesis by (simp add: format_price)
qed

lemma sparse_info: "map_of (info sparse_example) key = None" if "key \<noteq> ''shortName''"
  using that by (simp add: sparse_example_def snapshot_with_def)

lemma sparse_row_eval: "financial_row_of ''AAPL'' sparse_example = Inr sparse_row"
  by (simp add: financial_row_of_def Let_def bind_e_def sparse_row_def
      money0_missing percent2_missing ratio2_missing sparse_info)

lemma sparse_card_eval: "overview_card_of num_repr ''AAPL'' sparse_example = Inr sparse_card"
proof -
  have cp: "current_price (info sparse_example) (history sparse_example) = VNum 14"
    by (simp add: current_price_def dict_get_def sparse_example_def snapshot_with_def
        example_bars_def)
  have v: "metric_value (info sparse_example) (history sparse_example) = Inr ''$14.00''"
    using metric_value_number [OF cp] by (simp add: format_14)
  have "change_pct (info sparse_example) (history sparse_example) = Inr 0"
    by (simp add: change_pct_def cp py_sub_def py_gt_def bind_e_def dict_get_missing sparse_info)
  then have d: "metric_delta (info sparse_example) (history sparse_example) = Inr ''0.00%''"
    by (simp add: metric_delta_def bind_e_def format_zero_2)
  have l: "dict_get (info sparse_example) ''shortName'' (VStr ''AAPL'') = VStr ''Apple Inc.''"
    by (simp add: dict_get_def sparse_example_def snapshot_with_def)
  show ?thesis
    by (simp add: overview_card_of_def Let_def bind_e_def sparse_card_def v d l
        money0_missing percent2_missing plain_missing sparse_info)
qed

subsection \<open>C8: display formats\<close>

lemma money0_Inr:
  "money0 info' key = Inr s \<Longrightarrow>
     s = CHR ''$'' # format_f True 0 (num_of (dict_get info' key (VNum 0)))"
  by (auto simp: money0_def fmt_def bind_e_def num_of_def split: pvalue.splits)

lemma percent2_Inr:
  "percent2 info' key = Inr s \<Longrightarrow>
     s = format_f False 2 (num_of (dict_get info' key (VNum 0)) * 100) @ ''%''"
  by (auto simp: percent2_def times100_def fmt_def bind_e_def num_of_def split: pvalue.splits)

lemma ratio2_Inr:
  "ratio2 info' key = Inr s \<Longrightarrow> s = format_f False 2 (num_of (dict_get info' key (VNum 0)))"
  by (auto simp: ratio2_def fmt_def num_of_def split: pvalue.splits)

lemma metric_value_Inr:
  "metric_value info' history' = Inr s \<Longrightarrow>
     s = CHR ''$'' # format_f False 2 (num_of (current_price info' history'))"
  by (auto simp: metric_value_def fmt_def bind_e_def num_of_def split: pvalue.splits)

lemma money0_shape: "money0 info' key = Inr s \<Longrightarrow> dollars_0dp s"
  using money0_Inr [of info' key s] by (simp add: dollars_0dp_format)

lemma percent2_shape: "percent2 info' key = Inr s \<Longrightarrow> percent_2dp s"
  using percent2_Inr [of info' key s] by (simp add: percent_2dp_format)

lemma ratio2_shape: "ratio2 info' key = Inr s \<Longrightarrow> plain_2dp s"
  using ratio2_Inr [of info' key s] by (simp add: plain_2dp_format)

lemma metric_value_shape: "metric_value info' history' = Inr s \<Longrightarrow> dollars_2dp s"
  using metric_value_Inr [of info' history' s] by (simp add: dollars_2dp_format)

lemma metric_delta_shape: "metric_delta info' history' = Inr s \<Longrightarrow> percent_2dp s"
  by (auto simp: metric_delta_def bind_e_def percent_2dp_format split: sum.splits)

lemma overview_card_delta:
  "overview_card_of num_repr t data = Inr c \<Longrightarrow>
     metric_delta (info data) (history data) = Inr (card_delta c)"
  by (auto simp: overview_card_of_def Let_def bind_e_def split: sum.splits)

lemma perf_row_prices:
  assumes "perf_row_of t data = Some p"
  shows "perf_start_price p = CHR ''$'' # format_f False 2 (Close (hd (history data)))"
    and "perf_current_price p = CHR ''$'' # format_f False 2 (Close (last (history data)))"
    and "Close (hd (history data)) \<noteq> 0 \<Longrightarrow> percent_2dp (perf_total_return p)"
  using assms
  by (auto simp: perf_row_of_def Let_def total_return_finite format_np_def percent_2dp_format
      split: if_splits)

lemma metric_cell_shape:
  assumes "dict_get info' metric (VStr ''N/A'') = VNum x"
  shows "metric_cell info' metric = VStr (cell_text (metric_cell info' metric))"
    and "if metric = ''marketCap'' then dollars_0dp (cell_text (metric_cell info' metric))
         else if metric = ''dividendYield'' then percent_2dp (cell_text (metric_cell info' metric))
         else plain_2dp (cell_text (metric_cell info' metric))"
proof -
  note e = metric_cell_number [OF assms]
  show "metric_cell info' metric = VStr (cell_text (metric_cell info' metric))"
    unfolding e by (simp add: cell_text_def)
  show "if metric = ''marketCap'' then dollars_0dp (cell_text (metric_cell info' metric))
         else if metric = ''dividendYield'' then percent_2dp (cell_text (metric_cell info' metric))
         else plain_2dp (cell_text (metric_cell info' metric))"
    unfolding e
    by (simp add: cell_text_def dollars_0dp_format percent_2dp_format plain_2dp_format)
qed

lemma metric_cell_exact:
  "dict_get info' metric (VStr ''N/A'') = VNum x \<Longrightarrow> metric \<noteq> ''dividendYield'' \<Longrightarrow>
     metric_cell info' metric =
       VStr (if metric = ''marketCap'' then CHR ''$'' # format_f True 0 x else format_f False 2 x)"
  by (simp add: metric_cell_def)

lemma pe_card_eval: "overview_card_of str_28_5 ''AAPL'' pe_card_example = Inr pe_card"
proof -
  have m: "map_of (info pe_card_example) key = None"
    if "key \<noteq> ''shortName''" "key \<noteq> ''trailingPE''" for key
    using that by (simp add: pe_card_example_def snapshot_with_def)
  have cp: "current_price (info pe_card_example) (history pe_card_example) = VNum 14"
    by (simp add: current_price_def dict_get_def pe_card_example_def snapshot_with_def
        example_bars_def)
  have v: "metric_value (info pe_card_example) (history pe_card_example) = Inr ''$14.00''"
    using metric_value_number [OF cp] by (simp add: format_14)
  have "change_pct (info pe_card_example) (history pe_card_example) = Inr 0"
    by (simp add: change_pct_def cp py_sub_def py_gt_def bind_e_def dict_get_missing m)
  then have d: "metric_delta (info pe_card_example) (history pe_card_example) = Inr ''0.00%''"
    by (simp add: metric_delta_def bind_e_def format_zero_2)
  have l: "dict_get (info pe_card_example) ''shortName'' (VStr ''AAPL'') = VStr ''Apple Inc.''"
    by (simp add: dict_get_def pe_card_example_def snapshot_with_def)
  have pe: "plain str_28_5 (info pe_card_example) ''trailingPE'' = ''28.5''"
    by (simp add: plain_def py_str_def dict_get_def pe_card_example_def snapshot_with_def
        str_28_5_def)
  show ?thesis
    by (simp add: overview_card_of_def Let_def bind_e_def pe_card_def v d l pe
        money0_missing percent2_missing plain_missing m)
qed

lemma format_10: "format_f False 2 10 = ''10.00''"
  by (simp add: format_eval)

lemma format_pe: "format_f False 2 (57 / 2) = ''28.50''"
  by (simp add: format_eval)

lemma example_perf_row_eval: "perf_row_of ''AAPL'' fin_example = Some example_perf_row"
proof -
  have h: "history fin_example = example_bars"
    by (simp add: fin_example_def snapshot_with_def)
  have c: "Close (hd example_bars) = 10" "Close (last example_bars) = 14" "length example_bars = 3"
    by (simp_all add: example_bars_def)
  have tr: "total_return 10 14 = Finite 40"
    using total_return_finite [of 10 14] by simp
  have sd: "pd_std (Suc 0) (map Close example_bars) = Finite 2"
    using pd_std_sample [of "map Close example_bars"]
    by (simp add: example_closes example_sample_std)
  have f40: "format_f False 2 40 = ''40.00''"
    by (simp add: format_eval)
  show ?thesis
    by (simp add: perf_row_of_def Let_def h c tr sd format_np_def format_10 format_14 f40
        format_2 example_perf_row_def)
qed

text \<open>
  C8 (as the code has it). Prices (the current price of a card, the start and current
  price of the performance table) are shown with the currency sign and two decimals,
  without thousands separators; market cap, revenue, net income and free cash flow with
  the currency sign and comma-separated groups of three digits, without decimals;
  percentages (change, dividend yield, margins, return on equity, and the total return
  when the first close is not zero) with two decimals and a trailing percent sign;
  debt/equity and current ratio as plain two-decimal numbers; the P/E ratio as a
  two-decimal number in the comparison table and, on the overview card, as \<open>str\<close> writes
  the provider's value, with no format. The digits shown are those of the number itself
  for the closes of the performance table, for prices, ratios and money amounts of
  magnitude up to \<open>2 ^ 53\<close>, and for a percentage when the value times 100 is an integer
  of magnitude up to \<open>2 ^ 53\<close>.
\<close>

theorem display_formats:
  "(overview_card_of num_repr t data = Inr c \<longrightarrow>
      dollars_2dp (card_value c)
      \<and> percent_2dp (card_delta c)
      \<and> dollars_0dp (market_cap c)
      \<and> percent_2dp (dividend_yield c)
      \<and> pe_ratio c = py_str num_repr (dict_get (info data) ''trailingPE'' (VStr ''N/A''))
      \<and> metric_value (info data) (history data) = Inr (card_value c)
      \<and> money0 (info data) ''marketCap'' = Inr (market_cap c)
      \<and> percent2 (info data) ''dividendYield'' = Inr (dividend_yield c))
   \<and> (perf_row_of t data = Some p \<longrightarrow>
      perf_start_price p = CHR ''$'' # format_f False 2 (Close (hd (history data)))
      \<and> perf_current_price p = CHR ''$'' # format_f False 2 (Close (last (history data)))
      \<and> dollars_2dp (perf_start_price p)
      \<and> dollars_2dp (perf_current_price p)
      \<and> (Close (hd (history data)) \<noteq> 0 \<longrightarrow> percent_2dp (perf_total_return p)))
   \<and> (financial_row_of t data = Inr r \<longrightarrow>
      dollars_0dp (fin_revenue r)
      \<and> dollars_0dp (fin_net_income r)
      \<and> dollars_0dp (fin_free_cash_flow r)
      \<and> percent_2dp (fin_operating_margin r)
      \<and> percent_2dp (fin_profit_margin r)
      \<and> percent_2dp (fin_roe r)
      \<and> plain_2dp (fin_debt_equity r)
      \<and> plain_2dp (fin_current_ratio r)
      \<and> money0 (info data) ''totalRevenue'' = Inr (fin_revenue r)
      \<and> money0 (info data) ''netIncomeToCommon'' = Inr (fin_net_income r)
      \<and> money0 (info data) ''freeCashflow'' = Inr (fin_free_cash_flow r)
      \<and> percent2 (info data) ''operatingMargins'' = Inr (fin_operating_margin r)
      \<and> percent2 (info data) ''profitMargins'' = Inr (fin_profit_margin r)
      \<and> percent2 (info data) ''returnOnEquity'' = Inr (fin_roe r)
      \<and> ratio2 (info data) ''debtToEquity'' = Inr (fin_debt_equity r)
      \<and> ratio2 (info data) ''currentRatio'' = Inr (fin_current_ratio r))
   \<and> (dict_get info' metric (VStr ''N/A'') = VNum x \<longrightarrow>
      metric_cell info' metric = VStr (cell_text (metric_cell info' metric))
      \<and> (if metric = ''marketCap'' then dollars_0dp (cell_text (metric_cell info' metric))
          else if metric = ''dividendYield''
          then percent_2dp (cell_text (metric_cell info' metric))
          else plain_2dp (cell_text (metric_cell info' metric))))
   \<and> (dict_get info' metric (VStr ''N/A'') = VNum x \<and> \<bar>x\<bar> \<le> 2 ^ 53
        \<and> metric \<noteq> ''dividendYield'' \<longrightarrow>
      metric_cell info' metric =
        VStr (if metric = ''marketCap'' then CHR ''$'' # format_f True 0 x
              else format_f False 2 x))
   \<and> (current_price info' history' = VNum x \<and> \<bar>x\<bar> \<le> 2 ^ 53 \<longrightarrow>
      metric_value info' history' = Inr (CHR ''$'' # format_f False 2 x))
   \<and> (dict_get info' key (VNum 0) = VNum x \<and> \<bar>x\<bar> \<le> 2 ^ 53 \<longrightarrow>
      money0 info' key = Inr (CHR ''$'' # format_f True 0 x)
      \<and> ratio2 info' key = Inr (format_f False 2 x))
   \<and> (dict_get info' key (VNum 0) = VNum x \<and> of_int \<lfloor>x * 100\<rfloor> = x * 100
        \<and> \<bar>x * 100\<bar> \<le> 2 ^ 53 \<longrightarrow>
      percent2 info' key = Inr (format_f False 2 (x * 100) @ ''%''))"
proof (intro conjI impI)
  assume c: "overview_card_of num_repr t data = Inr c"
  note f = overview_card_fields [OF c]
  show "metric_value (info data) (history data) = Inr (card_value c)" by (rule f(1))
  then show "dollars_2dp (card_value c)" by (rule metric_value_shape)
  show "percent_2dp (card_delta c)"
    using overview_card_delta [OF c] by (rule metric_delta_shape)
  show "money0 (info data) ''marketCap'' = Inr (market_cap c)" by (rule f(2))
  then show "dollars_0dp (market_cap c)" by (rule money0_shape)
  show "percent2 (info data) ''dividendYield'' = Inr (dividend_yield c)" by (rule f(3))
  then show "percent_2dp (dividend_yield c)" by (rule percent2_shape)
  show "pe_ratio c = py_str num_repr (dict_get (info data) ''trailingPE'' (VStr ''N/A''))"
    using f(4) by (simp add: plain_def)
next
  assume p: "perf_row_of t data = Some p"
  note f = perf_row_prices [OF p]
  show "perf_start_price p = CHR ''$'' # format_f False 2 (Close (hd (history data)))"
    by (rule f(1))
  show "perf_current_price p = CHR ''$'' # format_f False 2 (Close (last (history data)))"
    by (rule f(2))
  show "dollars_2dp (perf_start_price p)" unfolding f(1) by (rule dollars_2dp_format)
  show "dollars_2dp (perf_current_price p)" unfolding f(2) by (rule dollars_2dp_format)
  show "percent_2dp (perf_total_return p)" if "Close (hd (history data)) \<noteq> 0"
    using that by (rule f(3))
next
  assume r: "financial_row_of t data = Inr r"
  note f = financial_row_fields [OF r]
  show "money0 (info data) ''totalRevenue'' = Inr (fin_revenue r)" by (rule f(1))
  then show "dollars_0dp (fin_revenue r)" by (rule money0_shape)
  show "money0 (info data) ''netIncomeToCommon'' = Inr (fin_net_income r)" by (rule f(2))
  then show "dollars_0dp (fin_net_income r)" by (rule money0_shape)
  show "money0 (info data) ''freeCashflow'' = Inr (fin_free_cash_flow r)" by (rule f(8))
  then show "dollars_0dp (fin_free_cash_flow r)" by (rule money0_shape)
  show "percent2 (info data) ''operatingMargins'' = Inr (fin_operating_margin r)" by (rule f(3))
  then show "percent_2dp (fin_operating_margin r)" by (rule percent2_shape)
  show "percent2 (info data) ''profitMargins'' = Inr (fin_profit_margin r)" by (rule f(4))
  then show "percent_2dp (fin_profit_margin r)" by (rule percent2_shape)
  show "percent2 (info data) ''returnOnEquity'' = Inr (fin_roe r)" by (rule f(5))
  then show "percent_2dp (fin_roe r)" by (rule percent2_shape)
  show "ratio2 (info data) ''debtToEquity'' = Inr (fin_debt_equity r)" by (rule f(6))
  then show "plain_2dp (fin_debt_equity r)" by (rule ratio2_shape)
  show "ratio2 (info data) ''currentRatio'' = Inr (fin_current_ratio r)" by (rule f(7))
  then show "plain_2dp (fin_current_ratio r)" by (rule ratio2_shape)
next
  assume m: "dict_get info' metric (VStr ''N/A'') = VNum x"
  show "metric_cell info' metric = VStr (cell_text (metric_cell info' metric))"
    using m by (rule metric_cell_shape(1))
  show "if metric = ''marketCap'' then dollars_0dp (cell_text (metric_cell info' metric))
          else if metric = ''dividendYield''
          then percent_2dp (cell_text (metric_cell info' metric))
          else plain_2dp (cell_text (metric_cell info' metric))"
    using m by (rule metric_cell_shape(2))
next
  assume "dict_get info' metric (VStr ''N/A'') = VNum x \<and> \<bar>x\<bar> \<le> 2 ^ 53
        \<and> metric \<noteq> ''dividendYield''"
  then show "metric_cell info' metric =
        VStr (if metric = ''marketCap'' then CHR ''$'' # format_f True 0 x
              else format_f False 2 x)"
    by (simp add: metric_cell_exact)
next
  assume "current_price info' history' = VNum x \<and> \<bar>x\<bar> \<le> 2 ^ 53"
  then show "metric_value info' history' = Inr (CHR ''$'' # format_f False 2 x)"
    by (simp add: metric_value_number)
next
  assume k: "dict_get info' key (VNum 0) = VNum x \<and> \<bar>x\<bar> \<le> 2 ^ 53"
  show "money0 info' key = Inr (CHR ''$'' # format_f True 0 x)"
    using k by (simp add: money0_number)
  show "ratio2 info' key = Inr (format_f False 2 x)"
    using k by (simp add: ratio2_number)
next
  assume "dict_get info' key (VNum 0) = VNum x \<and> of_int \<lfloor>x * 100\<rfloor> = x * 100
        \<and> \<bar>x * 100\<bar> \<le> 2 ^ 53"
  then show "percent2 info' key = Inr (format_f False 2 (x * 100) @ ''%'')"
    by (simp add: percent2_number)
qed

theorem display_formats_witness:
  "financial_row_of ''AAPL'' fin_example = Inr fin_example_row
   \<and> dollars_0dp (fin_revenue fin_example_row)
   \<and> percent_2dp (fin_profit_margin fin_example_row)
   \<and> plain_2dp (fin_debt_equity fin_example_row)
   \<and> money0 (info fin_example) ''totalRevenue'' = Inr (CHR ''$'' # format_f True 0 1234567)
   \<and> ratio2 (info fin_example) ''debtToEquity'' = Inr (format_f False 2 (3 / 2))
   \<and> percent2 (info fin_example) ''profitMargins'' = Inr (format_f False 2 25 @ ''%'')
   \<and> overview_card_of str_28_5 ''AAPL'' pe_card_example = Inr pe_card
   \<and> dollars_2dp (card_value pe_card)
   \<and> dollars_0dp (market_cap pe_card)
   \<and> percent_2dp (card_delta pe_card)
   \<and> pe_ratio pe_card = str_28_5 (57 / 2)
   \<and> perf_row_of ''AAPL'' fin_example = Some example_perf_row
   \<and> perf_start_price example_perf_row = CHR ''$'' # format_f False 2 10
   \<and> perf_current_price example_perf_row = CHR ''$'' # format_f False 2 14
   \<and> percent_2dp (perf_total_return example_perf_row)
   \<and> metric_cell (info fin_example) ''trailingPE'' = VStr (format_f False 2 (57 / 2))
   \<and> metric_cell (info fin_example) ''marketCap'' = VStr (CHR ''$'' # format_f True 0 1234567)
   \<and> metric_value (info fin_example) (history fin_example)
        = Inr (CHR ''$'' # format_f False 2 (2469 / 2))"
proof -
  have row: "financial_row_of ''AAPL'' fin_example = Inr fin_example_row"
    by (rule fin_example_row_eval)
  have card: "overview_card_of str_28_5 ''AAPL'' pe_card_example = Inr pe_card"
    by (rule pe_card_eval)
  have perf: "perf_row_of ''AAPL'' fin_example = Some example_perf_row"
    by (rule example_perf_row_eval)
  have closes: "Close (hd (history fin_example)) = 10" "Close (last (history fin_example)) = 14"
    by (simp_all add: fin_example_def snapshot_with_def example_bars_def)
  have pe: "dict_get (info pe_card_example) ''trailingPE'' (VStr ''N/A'') = VNum (57 / 2)"
    by (simp add: dict_get_def pe_card_example_def snapshot_with_def)
  have g1: "dict_get (info fin_example) ''trailingPE'' (VStr ''N/A'') = VNum (57 / 2)
      \<and> \<bar>57 / 2 :: real\<bar> \<le> 2 ^ 53 \<and> ''trailingPE'' \<noteq> ''dividendYield''"
    by (simp add: dict_get_def fin_example_def snapshot_with_def)
  have g2: "dict_get (info fin_example) ''marketCap'' (VStr ''N/A'') = VNum 1234567
      \<and> \<bar>1234567 :: real\<bar> \<le> 2 ^ 53 \<and> ''marketCap'' \<noteq> ''dividendYield''"
    by (simp add: dict_get_def fin_example_def snapshot_with_def)
  have g3: "current_price (info fin_example) (history fin_example) = VNum (2469 / 2)
      \<and> \<bar>2469 / 2 :: real\<bar> \<le> 2 ^ 53"
    by (simp add: current_price_def dict_get_def fin_example_def snapshot_with_def)
  have g4: "dict_get (info fin_example) ''totalRevenue'' (VNum 0) = VNum 1234567
      \<and> \<bar>1234567 :: real\<bar> \<le> 2 ^ 53"
    by (simp add: dict_get_def fin_example_info)
  have g5: "dict_get (info fin_example) ''debtToEquity'' (VNum 0) = VNum (3 / 2)
      \<and> \<bar>3 / 2 :: real\<bar> \<le> 2 ^ 53"
    by (simp add: dict_get_def fin_example_info)
  have g6: "dict_get (info fin_example) ''profitMargins'' (VNum 0) = VNum (1 / 4)
      \<and> of_int \<lfloor>1 / 4 * 100 :: real\<rfloor> = (1 / 4 * 100 :: real)
      \<and> \<bar>1 / 4 * 100 :: real\<bar> \<le> 2 ^ 53"
    by (simp add: dict_get_def fin_example_info)
  note a = display_formats [where num_repr = str_28_5 and t = "''AAPL''"
      and data = pe_card_example and c = pe_card]
  note b = display_formats [where t = "''AAPL''" and data = fin_example
      and p = example_perf_row and r = fin_example_row and info' = "info fin_example"
      and metric = "''trailingPE''" and x = "57 / 2"]
  note b2 = display_formats [where info' = "info fin_example" and metric = "''marketCap''"
      and x = 1234567]
  note b3 = display_formats [where info' = "info fin_example"
      and history' = "history fin_example" and x = "2469 / 2"]
  note b4 = display_formats [where info' = "info fin_example" and key = "''totalRevenue''"
      and x = 1234567]
  note b5 = display_formats [where info' = "info fin_example" and key = "''debtToEquity''"
      and x = "3 / 2"]
  note b6 = display_formats [where info' = "info fin_example" and key = "''profitMargins''"
      and x = "1 / 4"]
  have 1: "dollars_0dp (fin_revenue fin_example_row)"
    "percent_2dp (fin_profit_margin fin_example_row)"
    "plain_2dp (fin_debt_equity fin_example_row)"
    using b row by blast+
  have 2: "money0 (info fin_example) ''totalRevenue'' = Inr (CHR ''$'' # format_f True 0 1234567)"
    using b4 g4 by blast
  have 3: "ratio2 (info fin_example) ''debtToEquity'' = Inr (format_f False 2 (3 / 2))"
    using b5 g5 by blast
  have "percent2 (info fin_example) ''profitMargins'' = Inr (format_f False 2 (1 / 4 * 100) @ ''%'')"
    using b6 g6 by blast
  then have 4: "percent2 (info fin_example) ''profitMargins'' = Inr (format_f False 2 25 @ ''%'')"
    by simp
  have 5: "dollars_2dp (card_value pe_card)" "dollars_0dp (market_cap pe_card)"
    "percent_2dp (card_delta pe_card)"
    using a card by blast+
  have "pe_ratio pe_card = py_str str_28_5 (dict_get (info pe_card_example) ''trailingPE'' (VStr ''N/A''))"
    using a card by blast
  then have 6: "pe_ratio pe_card = str_28_5 (57 / 2)"
    by (simp add: pe py_str_def)
  have "perf_start_price example_perf_row
      = CHR ''$'' # format_f False 2 (Close (hd (history fin_example)))"
    "perf_current_price example_perf_row
      = CHR ''$'' # format_f False 2 (Close (last (history fin_example)))"
    using b perf by blast+
  then have 7: "perf_start_price example_perf_row = CHR ''$'' # format_f False 2 10"
    "perf_current_price example_perf_row = CHR ''$'' # format_f False 2 14"
    by (simp_all add: closes)
  have "Close (hd (history fin_example)) \<noteq> 0" by (simp add: closes)
  then have 8: "percent_2dp (perf_total_return example_perf_row)"
    using b perf by blast
  have "metric_cell (info fin_example) ''trailingPE''
      = VStr (if ''trailingPE'' = ''marketCap'' then CHR ''$'' # format_f True 0 (57 / 2)
              else format_f False 2 (57 / 2))"
    using b g1 by blast
  then have 9: "metric_cell (info fin_example) ''trailingPE'' = VStr (format_f False 2 (57 / 2))"
    by simp
  have "metric_cell (info fin_example) ''marketCap''
      = VStr (if ''marketCap'' = ''marketCap'' then CHR ''$'' # format_f True 0 1234567
              else format_f False 2 1234567)"
    using b2 g2 by blast
  then have 10: "metric_cell (info fin_example) ''marketCap'' = VStr (CHR ''$'' # format_f True 0 1234567)"
    by simp
  have 11: "metric_value (info fin_example) (history fin_example)
        = Inr (CHR ''$'' # format_f False 2 (2469 / 2))"
    using b3 g3 by blast
  from row card perf 1 2 3 4 5 6 7 8 9 10 11 show ?thesis by blast
qed

lemma zero_start_total_return:
  "map_option perf_total_return (perf_row_of ''AAPL'' zero_start_example) = Some ''inf%''"
  by (simp add: perf_row_of_def Let_def zero_start_example_def snapshot_with_def
      total_return_def np_div_def np_mul_def format_np_def)

text \<open>
  C8 as stated fails: a revenue of 1234567 is shown as \<open>$1,234,567\<close>, not with two
  decimals; a current price of 1234.5 (\<open>2469 / 2\<close>) as \<open>$1234.50\<close>, not with a
  thousands separator; a trailing P/E of 28.5 is shown on the overview card as
  \<open>28.5\<close>, not as the two-decimal \<open>28.50\<close>; and the total return over a history
  that starts at a close of zero is shown as \<open>inf%\<close>.
\<close>

theorem currency_format_counterexample:
  "financial_row_of ''AAPL'' fin_example = Inr fin_example_row
   \<and> fin_revenue fin_example_row = ''$1,234,567''
   \<and> currency_2dp 1234567 = ''$1,234,567.00''
   \<and> fin_revenue fin_example_row \<noteq> currency_2dp 1234567
   \<and> metric_value (info fin_example) (history fin_example) = Inr ''$1234.50''
   \<and> currency_2dp (2469 / 2) = ''$1,234.50''
   \<and> metric_value (info fin_example) (history fin_example) \<noteq> Inr (currency_2dp (2469 / 2))
   \<and> overview_card_of str_28_5 ''AAPL'' pe_card_example = Inr pe_card
   \<and> pe_ratio pe_card = ''28.5''
   \<and> format_f False 2 (57 / 2) = ''28.50''
   \<and> pe_ratio pe_card \<noteq> format_f False 2 (57 / 2)
   \<and> map_option perf_total_return (perf_row_of ''AAPL'' zero_start_example) = Some ''inf%''
   \<and> \<not> percent_2dp ''inf%''"
  by (simp add: fin_example_row_eval fin_example_price currency_2dp_examples fin_example_row_def
      pe_card_eval pe_card_def format_pe zero_start_total_return percent_2dp_def
      two_decimals_def)

subsection \<open>C9: missing fields\<close>

lemma Inr_unique: "m = Inr a \<Longrightarrow> m = Inr b \<Longrightarrow> a = b"
  by simp

text \<open>
  C9 (as the code has it). A field missing from the quote info is shown as the literal
  \<open>N/A\<close> where the value is interpolated without a numeric format: P/E, 52-week high and
  low (after the currency sign) and sector on the overview card, and every cell of the
  comparison table. Where the value goes through a numeric format the default is 0 and
  the text is a formatted zero: \<open>$0\<close> for market cap, revenue, net income and free cash
  flow, \<open>0.00%\<close> for dividend yield, margins and return on equity, \<open>0.00\<close> for
  debt/equity and current ratio.
\<close>

theorem missing_field_rendering:
  "(map_of info' key = None \<longrightarrow>
      plain num_repr info' key = ''N/A''
      \<and> metric_cell info' key = VStr ''N/A''
      \<and> money0 info' key = Inr ''$0''
      \<and> percent2 info' key = Inr ''0.00%''
      \<and> ratio2 info' key = Inr ''0.00'')
   \<and> (overview_card_of num_repr t data = Inr c \<longrightarrow>
      (map_of (info data) ''trailingPE'' = None \<longrightarrow> pe_ratio c = ''N/A'')
      \<and> (map_of (info data) ''fiftyTwoWeekHigh'' = None \<longrightarrow> high_52w c = ''$N/A'')
      \<and> (map_of (info data) ''fiftyTwoWeekLow'' = None \<longrightarrow> low_52w c = ''$N/A'')
      \<and> (map_of (info data) ''sector'' = None \<longrightarrow> sector c = ''N/A'')
      \<and> (map_of (info data) ''marketCap'' = None \<longrightarrow> market_cap c = ''$0'')
      \<and> (map_of (info data) ''dividendYield'' = None \<longrightarrow> dividend_yield c = ''0.00%''))
   \<and> (financial_row_of t data = Inr r \<longrightarrow>
      (map_of (info data) ''totalRevenue'' = None \<longrightarrow> fin_revenue r = ''$0'')
      \<and> (map_of (info data) ''netIncomeToCommon'' = None \<longrightarrow> fin_net_income r = ''$0'')
      \<and> (map_of (info data) ''operatingMargins'' = None \<longrightarrow> fin_operating_margin r = ''0.00%'')
      \<and> (map_of (info data) ''profitMargins'' = None \<longrightarrow> fin_profit_margin r = ''0.00%'')
      \<and> (map_of (info data) ''returnOnEquity'' = None \<longrightarrow> fin_roe r = ''0.00%'')
      \<and> (map_of (info data) ''debtToEquity'' = None \<longrightarrow> fin_debt_equity r = ''0.00'')
      \<and> (map_of (info data) ''currentRatio'' = None \<longrightarrow> fin_current_ratio r = ''0.00'')
      \<and> (map_of (info data) ''freeCashflow'' = None \<longrightarrow> fin_free_cash_flow r = ''$0''))"
proof (intro conjI impI)
  assume m: "map_of info' key = None"
  show "plain num_repr info' key = ''N/A''" using m by (rule plain_missing)
  show "metric_cell info' key = VStr ''N/A''" using m by (rule metric_cell_missing)
  show "money0 info' key = Inr ''$0''" using m by (rule money0_missing)
  show "percent2 info' key = Inr ''0.00%''" using m by (rule percent2_missing)
  show "ratio2 info' key = Inr ''0.00''" using m by (rule ratio2_missing)
next
  assume c: "overview_card_of num_repr t data = Inr c"
  note f = overview_card_fields [OF c]
  show "pe_ratio c = ''N/A''" if "map_of (info data) ''trailingPE'' = None"
    using f(4) plain_missing [OF that] by simp
  show "high_52w c = ''$N/A''" if "map_of (info data) ''fiftyTwoWeekHigh'' = None"
    using f(5) plain_missing [OF that] by simp
  show "low_52w c = ''$N/A''" if "map_of (info data) ''fiftyTwoWeekLow'' = None"
    using f(6) plain_missing [OF that] by simp
  show "sector c = ''N/A''" if "map_of (info data) ''sector'' = None"
    using f(7) plain_missing [OF that] by simp
  show "market_cap c = ''$0''" if "map_of (info data) ''marketCap'' = None"
    using Inr_unique [OF f(2) money0_missing [OF that]] by simp
  show "dividend_yield c = ''0.00%''" if "map_of (info data) ''dividendYield'' = None"
    using Inr_unique [OF f(3) percent2_missing [OF that]] by simp
next
  assume r: "financial_row_of t data = Inr r"
  note f = financial_row_fields [OF r]
  show "fin_revenue r = ''$0''" if "map_of (info data) ''totalRevenue'' = None"
    using Inr_unique [OF f(1) money0_missing [OF that]] by simp
  show "fin_net_income r = ''$0''" if "map_of (info data) ''netIncomeToCommon'' = None"
    using Inr_unique [OF f(2) money0_missing [OF that]] by simp
  show "fin_operating_margin r = ''0.00%''" if "map_of (info data) ''operatingMargins'' = None"
    using Inr_unique [OF f(3) percent2_missing [OF that]] by simp
  show "fin_profit_margin r = ''0.00%''" if "map_of (info data) ''profitMargins'' = None"
    using Inr_unique [OF f(4) percent2_missing [OF that]] by simp
  show "fin_roe r = ''0.00%''" if "map_of (info data) ''returnOnEquity'' = None"
    using Inr_unique [OF f(5) percent2_missing [OF that]] by simp
  show "fin_debt_equity r = ''0.00''" if "map_of (info data) ''debtToEquity'' = None"
    using Inr_unique [OF f(6) ratio2_missing [OF that]] by simp
  show "fin_current_ratio r = ''0.00''" if "map_of (info data) ''currentRatio'' = None"
    using Inr_unique [OF f(7) ratio2_missing [OF that]] by simp
  show "fin_free_cash_flow r = ''$0''" if "map_of (info data) ''freeCashflow'' = None"
    using Inr_unique [OF f(8) money0_missing [OF that]] by simp
qed

theorem missing_field_rendering_witness:
  "map_of (info sparse_example) ''trailingPE'' = None
   \<and> map_of (info sparse_example) ''marketCap'' = None
   \<and> map_of (info sparse_example) ''totalRevenue'' = None
   \<and> overview_card_of (\<lambda>x. []) ''AAPL'' sparse_example = Inr sparse_card
   \<and> financial_row_of ''AAPL'' sparse_example = Inr sparse_row
   \<and> pe_ratio sparse_card = ''N/A''
   \<and> market_cap sparse_card = ''$0''
   \<and> fin_revenue sparse_row = ''$0''
   \<and> metric_cell (info sparse_example) ''trailingPE'' = VStr ''N/A''
   \<and> money0 (info sparse_example) ''marketCap'' = Inr ''$0''"
proof -
  note t = missing_field_rendering [of "info sparse_example" _ "\<lambda>x. []" "''AAPL''"
      sparse_example sparse_card sparse_row]
  have m: "map_of (info sparse_example) ''trailingPE'' = None"
    "map_of (info sparse_example) ''marketCap'' = None"
    "map_of (info sparse_example) ''totalRevenue'' = None"
    by (simp_all add: sparse_info)
  have c: "overview_card_of (\<lambda>x. []) ''AAPL'' sparse_example = Inr sparse_card"
    by (rule sparse_card_eval)
  have r: "financial_row_of ''AAPL'' sparse_example = Inr sparse_row"
    by (rule sparse_row_eval)
  have 1: "pe_ratio sparse_card = ''N/A''" "market_cap sparse_card = ''$0''"
    using t [of "''trailingPE''"] c m by blast+
  have 2: "fin_revenue sparse_row = ''$0''"
    using t [of "''trailingPE''"] r m by blast
  have 3: "metric_cell (info sparse_example) ''trailingPE'' = VStr ''N/A''"
    using t [of "''trailingPE''"] m by blast
  have 4: "money0 (info sparse_example) ''marketCap'' = Inr ''$0''"
    using t [of "''marketCap''"] m by blast
  from m c r 1 2 3 4 show ?thesis by blast
qed

text \<open>
  C9 as stated fails: with no revenue and no debt/equity in the quote info, the financials
  row shows \<open>$0\<close> and \<open>0.00\<close>, not \<open>N/A\<close>, and neither value feeds a calculation.
\<close>

theorem missing_field_counterexample:
  "map_of (info sparse_example) ''totalRevenue'' = None
   \<and> map_of (info sparse_example) ''debtToEquity'' = None
   \<and> financial_row_of ''AAPL'' sparse_example = Inr sparse_row
   \<and> fin_revenue sparse_row = ''$0''
   \<and> fin_revenue sparse_row \<noteq> ''N/A''
   \<and> fin_debt_equity sparse_row = ''0.00''
   \<and> fin_debt_equity sparse_row \<noteq> ''N/A''"
  by (simp add: sparse_info sparse_row_eval sparse_row_def)

end
